theory Spec2Isabelle
  imports Main "HOL-Library.Word"
begin

section \<open>I2cTestTool: data\<close>

text \<open>
  The program is \<^verbatim>\<open>src/I2cTestTool/main.cpp\<close>, a C++/CX console program.  Its
  wide characters are modelled by \<^typ>\<open>char\<close>, a \<^verbatim>\<open>BYTE\<close> by an 8-bit word and
  \<^verbatim>\<open>unsigned int\<close>, \<^verbatim>\<open>UINT32\<close> and \<^verbatim>\<open>int\<close> by 32-bit words.
\<close>

type_synonym BYTE = "8 word"
type_synonym UINT32 = "32 word"

text \<open>
  \<^verbatim>\<open>Windows::Devices::I2c::I2cTransferStatus\<close> and \<^verbatim>\<open>I2cTransferResult\<close> are declared by
  the platform.  The program names three enumerators; every other value of the
  enumeration reaches the \<^verbatim>\<open>default:\<close> label of its switches.
\<close>

datatype I2cTransferStatus =
    FullTransfer
  | PartialTransfer
  | SlaveAddressNotAcknowledged
  | OtherStatus nat

record I2cTransferResult =
  Status :: I2cTransferStatus
  BytesTransferred :: UINT32

datatype I2cBusSpeed = StandardMode | FastMode | OtherSpeed nat

text \<open>The two exception types that \<^verbatim>\<open>main\<close> catches.\<close>

datatype exn = wexception string | PlatformException string

section \<open>The stream library\<close>

text \<open>
  The program reads with \<^verbatim>\<open>std::wistream\<close> and writes with \<^verbatim>\<open>std::wostream\<close>.  A
  stream is modelled by the state the program can observe: the characters not yet
  read, the fail state and the number base for an input stream; the characters
  written and the number base for an output stream.  \<^verbatim>\<open>std::hex\<close> sets the base
  and nothing in the program ever sets it back.  The end-of-file bit is left out:
  it is set only when no character is left, where every read fails anyway.
\<close>

record istream =
  rdbuf :: string
  failbit :: bool
  in_hex :: bool

record ostream =
  written :: string
  out_hex :: bool

definition istringstream :: "string \<Rightarrow> istream" where
  "istringstream line = \<lparr>rdbuf = line, failbit = False, in_hex = False\<rparr>"

definition isspace :: "char \<Rightarrow> bool" where
  "isspace ch = (ch \<in> set [CHR '' '', CHR 0x09, CHR 0x0A, CHR 0x0B, CHR 0x0C, CHR 0x0D])"

subsection \<open>Formatted output\<close>

text \<open>The digit characters of formatted output; only values below 16 are ever asked for.\<close>

definition hex_digit :: "nat \<Rightarrow> char" where
  "hex_digit d = (if d < 16 then ''0123456789abcdef'' ! d else CHR ''?'')"

fun show_hex :: "nat \<Rightarrow> string" where
  "show_hex n = (if n < 16 then [hex_digit n] else show_hex (n div 16) @ [hex_digit (n mod 16)])"

fun show_dec :: "nat \<Rightarrow> string" where
  "show_dec n = (if n < 10 then [hex_digit n] else show_dec (n div 10) @ [hex_digit (n mod 10)])"

declare show_hex.simps [simp del]
declare show_dec.simps [simp del]

text \<open>\<^verbatim>\<open>os << text\<close>\<close>

definition put :: "ostream \<Rightarrow> string \<Rightarrow> ostream" where
  "put os s = os\<lparr>written := written os @ s\<rparr>"

text \<open>\<^verbatim>\<open>os << std::hex\<close>\<close>

definition set_hex :: "ostream \<Rightarrow> ostream" where
  "set_hex os = os\<lparr>out_hex := True\<rparr>"

text \<open>
  \<^verbatim>\<open>os << n\<close> for an unsigned or a non-negative integer: the digits in the base of
  the stream, lowercase, with no prefix and no padding (the program sets neither
  \<^verbatim>\<open>showbase\<close>, \<^verbatim>\<open>uppercase\<close>, a width nor a fill character).
\<close>

definition put_uint :: "ostream \<Rightarrow> nat \<Rightarrow> ostream" where
  "put_uint os n = put os (if out_hex os then show_hex n else show_dec n)"

subsection \<open>Formatted input\<close>

text \<open>
  The value of a character as a digit; 16 for a character that is no digit of
  base 16 or less.
\<close>

definition digit_of :: "char \<Rightarrow> nat" where
  "digit_of c =
     (let n = (of_char c :: nat) in
      if 48 \<le> n \<and> n \<le> 57 then n - 48
      else if 97 \<le> n \<and> n \<le> 102 then n - 87
      else if 65 \<le> n \<and> n \<le> 70 then n - 55
      else 16)"

definition is_digit :: "nat \<Rightarrow> char \<Rightarrow> bool" where
  "is_digit base c = (digit_of c < base)"

definition digits_val :: "nat \<Rightarrow> string \<Rightarrow> nat" where
  "digits_val base ds = foldl (\<lambda>acc c. acc * base + digit_of c) 0 ds"

text \<open>
  \<^verbatim>\<open>num_get::do_get\<close> for \<^verbatim>\<open>unsigned int\<close> in base 10 or 16, as the library of the
  only C++/CX compiler reads an integer field.  First an optional sign is taken.
\<close>

definition get_sign :: "string \<Rightarrow> bool \<times> string" where
  "get_sign s0 =
     (case s0 of
        [] \<Rightarrow> (False, s0)
      | c # r \<Rightarrow>
          if c = CHR ''+'' then (False, r)
          else if c = CHR ''-'' then (True, r)
          else (False, s0))"

text \<open>
  Then a leading zero is looked at: in base 16 it may start the prefix \<^verbatim>\<open>0x\<close> or
  \<^verbatim>\<open>0X\<close>, which is skipped; otherwise it counts as a digit seen.
\<close>

definition get_prefix :: "bool \<Rightarrow> string \<Rightarrow> bool \<times> string" where
  "get_prefix hexbase s1 =
     (case s1 of
        [] \<Rightarrow> (False, s1)
      | c # r \<Rightarrow>
          if c = CHR ''0'' then
            (case r of
               [] \<Rightarrow> (True, r)
             | x # r' \<Rightarrow>
                 if (x = CHR ''x'' \<or> x = CHR ''X'') \<and> hexbase then (False, r')
                 else (True, r))
          else (False, s1))"

text \<open>
  Then every digit of the base that follows is taken.  All these characters are
  consumed.  The field fails when it has no digit or when its value does not fit 32
  bits; a field with a minus sign is negated modulo \<open>2 ^ 32\<close>.
\<close>

definition num_get_uint :: "bool \<Rightarrow> string \<Rightarrow> UINT32 option \<times> string" where
  "num_get_uint hexbase s0 =
     (let base = (if hexbase then 16 else 10 :: nat);
          (minus, s1) = get_sign s0;
          (seendigit, s2) = get_prefix hexbase s1;
          ds = takeWhile (is_digit base) s2;
          rest = dropWhile (is_digit base) s2
      in if \<not> seendigit \<and> ds = [] then (None, rest)
         else if digits_val base ds > 0xFFFFFFFF then (None, rest)
         else (Some (if minus then 0 - of_nat (digits_val base ds)
                     else of_nat (digits_val base ds)), rest))"

text \<open>
  \<^verbatim>\<open>is >> n\<close> for \<^verbatim>\<open>unsigned int\<close>: nothing is read from a failed stream; otherwise
  leading white space is skipped and the field is read.
\<close>

definition extract_uint :: "istream \<Rightarrow> UINT32 option \<times> istream" where
  "extract_uint is =
     (if failbit is then (None, is)
      else case num_get_uint (in_hex is) (dropWhile isspace (rdbuf is)) of
             (v, rest) \<Rightarrow> (v, is\<lparr>rdbuf := rest, failbit := (v = None)\<rparr>))"

text \<open>
  \<^verbatim>\<open>is >> word\<close> for \<^verbatim>\<open>std::wstring\<close>: leading white space is skipped, then the
  characters up to the next white space are the word.  When no character is left
  the stream fails and the string keeps its value, which is empty in the program.
\<close>

definition extract_word :: "istream \<Rightarrow> string \<times> istream" where
  "extract_word is =
     (if failbit is then ([], is)
      else let s = dropWhile isspace (rdbuf is) in
        if s = [] then ([], is\<lparr>rdbuf := [], failbit := True\<rparr>)
        else (takeWhile (\<lambda>c. \<not> isspace c) s,
              is\<lparr>rdbuf := dropWhile (\<lambda>c. \<not> isspace c) s\<rparr>))"

section \<open>The byte-buffer parser\<close>

text \<open>
  \<^verbatim>\<open>expect\<close>: the loop over \<^verbatim>\<open>is.get(ch)\<close>.  The first component tells whether the
  delimiter was found; the second is what is left unread.
\<close>

fun expect_loop :: "char \<Rightarrow> string \<Rightarrow> bool \<times> string" where
  "expect_loop delim [] = (False, [])"
| "expect_loop delim (ch # s) =
     (if ch = delim then (True, s)
      else if \<not> isspace ch then (False, s)
      else expect_loop delim s)"

definition expect :: "istream \<Rightarrow> char \<Rightarrow> istream" where
  "expect is delim =
     (if failbit is then is
      else case expect_loop delim (rdbuf is) of
             (found, s) \<Rightarrow> is\<lparr>rdbuf := s, failbit := \<not> found\<rparr>)"

lemma num_get_uint_shorter:
  "num_get_uint h s = (Some v, rest) \<Longrightarrow> length rest < length s"
proof -
  have dw: "length (dropWhile P xs) \<le> length xs" for P and xs :: string
    by (induction xs) auto
  have tw: "takeWhile P xs \<noteq> [] \<Longrightarrow> length (dropWhile P xs) < length xs"
    for P and xs :: string
    by (cases xs) (auto simp: le_imp_less_Suc dw split: if_splits)
  assume "num_get_uint h s = (Some v, rest)"
  then show ?thesis
    unfolding num_get_uint_def get_sign_def get_prefix_def Let_def
    by (auto split: list.splits if_splits prod.splits
             dest: tw simp: le_imp_less_Suc dw less_SucI)
qed

lemma extract_uint_shorter:
  "extract_uint is = (Some v, is') \<Longrightarrow> length (rdbuf is') < length (rdbuf is)"
proof -
  have dw: "length (dropWhile P xs) \<le> length xs" for P and xs :: string
    by (induction xs) auto
  assume "extract_uint is = (Some v, is')"
  then show ?thesis
    unfolding extract_uint_def
    by (auto split: if_splits prod.splits dest!: num_get_uint_shorter
             intro: less_le_trans [OF _ dw])
qed

text \<open>
  The loop \<^verbatim>\<open>while (is >> std::hex >> byte)\<close> of the parser.  It ends with
  \<open>Some byte\<close> at a value above \<^verbatim>\<open>0xff\<close> and with \<open>None\<close> when the extraction fails.
\<close>

function hex_loop :: "istream \<Rightarrow> BYTE list \<Rightarrow> UINT32 option \<times> istream \<times> BYTE list" where
  "hex_loop is bytes =
     (case extract_uint (is\<lparr>in_hex := True\<rparr>) of
        (None, is') \<Rightarrow> (None, is', bytes)
      | (Some byte, is') \<Rightarrow>
          if byte > 0xff then (Some byte, is', bytes)
          else hex_loop is' (bytes @ [ucast byte]))"
  by pat_completeness auto
termination
proof (relation "measure (\<lambda>(is, bytes). length (rdbuf is))")
  show "wf (measure (\<lambda>(is, bytes). length (rdbuf is)))" by simp
next
  fix "is" :: istream and bytes :: "BYTE list" and x y x2
  assume "(x, y) = extract_uint (is\<lparr>in_hex := True\<rparr>)" and "x = Some x2"
  then have "extract_uint (is\<lparr>in_hex := True\<rparr>) = (Some x2, y)" by simp
  from extract_uint_shorter [OF this]
  show "((y, bytes @ [ucast x2]), is, bytes) \<in> measure (\<lambda>(is, bytes). length (rdbuf is))"
    by simp
qed

declare hex_loop.simps [simp del]

text \<open>
  \<^verbatim>\<open>operator>> (std::wistream&, std::vector<BYTE>&)\<close>.  It writes its diagnostics to
  \<^verbatim>\<open>std::wcout\<close>, so the console stream is passed through it.
\<close>

definition read_bytes :: "istream \<Rightarrow> ostream \<Rightarrow> istream \<times> BYTE list \<times> ostream" where
  "read_bytes is wcout =
     (let is1 = expect is (CHR ''{'') in
      if failbit is1 then
        (is1, [], put wcout ''Syntax error: expecting '{'\<newline>'')
      else
        case hex_loop is1 [] of
          (Some byte, is2, bytes) \<Rightarrow>
            (is2\<lparr>failbit := True\<rparr>, bytes,
             put (put_uint (set_hex (put wcout ''Out of range [0, 0xff]: '')) (unat byte))
                 ''\<newline>'')
        | (None, is2, bytes) \<Rightarrow>
            if bytes = [] then
              (is2\<lparr>failbit := True\<rparr>, bytes,
               put wcout ''Zero-length buffers are not allowed\<newline>'')
            else
              let is3 = expect (is2\<lparr>failbit := False\<rparr>) (CHR ''}'') in
              if failbit is3 then
                (is3, bytes, put wcout ''Syntax error: expecting '}'\<newline>'')
              else (is3, bytes, wcout))"

text \<open>\<^verbatim>\<open>operator<< (std::wostream&, const Platform::Array<BYTE>^)\<close>\<close>

fun put_bytes :: "ostream \<Rightarrow> BYTE list \<Rightarrow> ostream" where
  "put_bytes os [] = os"
| "put_bytes os (byte # bytes) =
     put_bytes (put_uint (set_hex (put os '' '')) (unat byte)) bytes"

text \<open>\<^verbatim>\<open>operator<< (std::wostream&, I2cBusSpeed)\<close>\<close>

definition put_busSpeed :: "ostream \<Rightarrow> I2cBusSpeed \<Rightarrow> ostream" where
  "put_busSpeed os busSpeed =
     (case busSpeed of
        StandardMode \<Rightarrow> put os ''StandardMode (100Khz)''
      | FastMode \<Rightarrow> put os ''FastMode (400kHz)''
      | OtherSpeed _ \<Rightarrow> put os ''[Invalid bus speed]'')"

section \<open>The device\<close>

text \<open>
  \<^verbatim>\<open>I2cDevice\<close> belongs to the platform, so its methods are parameters of the model.
  A device is a state of type \<open>'d\<close> with the three transfer methods; a call returns
  \<open>Inl message\<close> when it throws a \<^verbatim>\<open>Platform::Exception\<close>, and otherwise the
  transfer result with the next state.  A read gets the caller's array and tells
  which bytes it stores there, from index 0 on; the array keeps its length
  (\<open>store_bytes\<close>).
\<close>

record 'd I2cDevice =
  WritePartial :: "'d \<Rightarrow> BYTE list \<Rightarrow> string + I2cTransferResult \<times> 'd"
  ReadPartial :: "'d \<Rightarrow> BYTE list \<Rightarrow> string + (I2cTransferResult \<times> BYTE list) \<times> 'd"
  WriteReadPartial ::
    "'d \<Rightarrow> BYTE list \<Rightarrow> BYTE list \<Rightarrow> string + (I2cTransferResult \<times> BYTE list) \<times> 'd"
  DeviceId :: string
  SlaveAddress :: UINT32
  BusSpeed :: I2cBusSpeed

definition store_bytes :: "BYTE list \<Rightarrow> BYTE list \<Rightarrow> BYTE list" where
  "store_bytes readBuf stored = take (length readBuf) stored @ drop (length stored) readBuf"

text \<open>
  \<^verbatim>\<open>ref new Platform::Array<BYTE>(n)\<close>: \<open>n\<close> bytes, all zero.  The allocation is
  taken to succeed.
\<close>

definition new_Array :: "UINT32 \<Rightarrow> BYTE list" where
  "new_Array n = replicate (unat n) 0"

section \<open>The interactive loop\<close>

definition Help :: string where
  "Help =
     ''Commands:\<newline>'' @
     '' > write { 00 11 22 .. FF }         Write supplied buffer\<newline>'' @
     '' > read N                           Read N bytes\<newline>'' @
     '' > writeread { 00 11 .. FF } N      Write buffer, restart, read N bytes\<newline>'' @
     '' > info                             Display device information\<newline>'' @
     '' > help                             Display this help message\<newline>'' @
     '' > quit                             Quit\<newline>\<newline>''"

text \<open>
  What one pass through the body of the loop of \<^verbatim>\<open>ShowPrompt\<close> ends with: the next
  iteration, the \<^verbatim>\<open>return\<close> of the function, or a thrown exception.  Each carries
  the state of \<^verbatim>\<open>std::wcout\<close>.
\<close>

datatype 'd outcome =
    Continue 'd ostream
  | Return 'd ostream
  | Throw exn ostream

text \<open>The \<^verbatim>\<open>write\<close> branch from the call of \<^verbatim>\<open>WritePartial\<close> on.\<close>

definition write_transfer :: "'d I2cDevice \<Rightarrow> 'd \<Rightarrow> ostream \<Rightarrow> BYTE list \<Rightarrow> 'd outcome" where
  "write_transfer device d wcout writeBuf =
     (case WritePartial device d writeBuf of
        Inl msg \<Rightarrow> Throw (PlatformException msg) wcout
      | Inr (result, d') \<Rightarrow>
          (case Status result of
             FullTransfer \<Rightarrow> Continue d' wcout
           | PartialTransfer \<Rightarrow>
               Continue d'
                 (put (put_uint (put wcout ''Partial Transfer. Transferred '')
                                (unat (BytesTransferred result)))
                      '' bytes\<newline>'')
           | SlaveAddressNotAcknowledged \<Rightarrow>
               Continue d' (put wcout ''Slave address was not acknowledged\<newline>'')
           | OtherStatus _ \<Rightarrow> Throw (wexception ''Invalid transfer status value'') wcout))"

text \<open>The \<^verbatim>\<open>read\<close> branch from the allocation of \<^verbatim>\<open>readBuf\<close> on.\<close>

definition read_transfer :: "'d I2cDevice \<Rightarrow> 'd \<Rightarrow> ostream \<Rightarrow> UINT32 \<Rightarrow> 'd outcome" where
  "read_transfer device d wcout bytesToRead =
     (case ReadPartial device d (new_Array bytesToRead) of
        Inl msg \<Rightarrow> Throw (PlatformException msg) wcout
      | Inr ((result, stored), d') \<Rightarrow>
          (let readBuf = store_bytes (new_Array bytesToRead) stored in
           case Status result of
             FullTransfer \<Rightarrow> Continue d' (put (put_bytes wcout readBuf) ''\<newline>'')
           | PartialTransfer \<Rightarrow>
               Continue d'
                 (put (put_bytes
                        (put (put_uint (put wcout ''Partial Transfer. Transferred '')
                                       (unat (BytesTransferred result)))
                             '' bytes\<newline>'')
                        readBuf)
                      ''\<newline>'')
           | SlaveAddressNotAcknowledged \<Rightarrow>
               Continue d' (put wcout ''Slave address was not acknowledged\<newline>'')
           | OtherStatus _ \<Rightarrow> Throw (wexception ''Invalid transfer status value'') wcout))"

text \<open>
  The \<^verbatim>\<open>writeread\<close> branch from the allocation of \<^verbatim>\<open>readBuf\<close> on.  \<^verbatim>\<open>bytesRead\<close> is
  an \<^verbatim>\<open>int\<close> initialised from an unsigned 32-bit difference.
\<close>

definition writeread_transfer ::
    "'d I2cDevice \<Rightarrow> 'd \<Rightarrow> ostream \<Rightarrow> BYTE list \<Rightarrow> UINT32 \<Rightarrow> 'd outcome" where
  "writeread_transfer device d wcout writeBuf bytesToRead =
     (case WriteReadPartial device d writeBuf (new_Array bytesToRead) of
        Inl msg \<Rightarrow> Throw (PlatformException msg) wcout
      | Inr ((result, stored), d') \<Rightarrow>
          (let readBuf = store_bytes (new_Array bytesToRead) stored in
           case Status result of
             FullTransfer \<Rightarrow> Continue d' (put (put_bytes wcout readBuf) ''\<newline>'')
           | PartialTransfer \<Rightarrow>
               (let wcout1 =
                      put (put_uint (put wcout ''Partial Transfer. Transferred '')
                                    (unat (BytesTransferred result)))
                          '' bytes\<newline>'';
                    bytesRead =
                      sint (BytesTransferred result - (of_nat (length writeBuf) :: UINT32))
                in if bytesRead > 0 then Continue d' (put (put_bytes wcout1 readBuf) ''\<newline>'')
                   else Continue d' wcout1)
           | SlaveAddressNotAcknowledged \<Rightarrow>
               Continue d' (put wcout ''Slave address was not acknowledged\<newline>'')
           | OtherStatus _ \<Rightarrow> Throw (wexception ''Invalid transfer status value'') wcout))"

text \<open>The \<^verbatim>\<open>info\<close> branch.\<close>

definition info :: "'d I2cDevice \<Rightarrow> ostream \<Rightarrow> ostream" where
  "info device wcout =
     (let os1 = put (put (put wcout ''       DeviceId: '') (DeviceId device)) ''\<newline>'';
          os2 = put (put_uint (set_hex (put os1 ''  Slave address: 0x''))
                              (unat (SlaveAddress device)))
                    ''\<newline>''
      in put (put_busSpeed (put os2 ''      Bus Speed: '') (BusSpeed device)) ''\<newline>'')"

text \<open>
  The body of the loop after \<^verbatim>\<open>std::getline\<close> has delivered \<open>line\<close>.  The parser
  of the byte buffer leaves the stream failed exactly when it has not returned a
  buffer, and \<open>extract_uint\<close> returns \<open>None\<close> exactly when it leaves the stream
  failed.
\<close>

definition command_line :: "'d I2cDevice \<Rightarrow> 'd \<Rightarrow> ostream \<Rightarrow> string \<Rightarrow> 'd outcome" where
  "command_line device d wcout line =
     (case extract_word (istringstream line) of (command, linestream) \<Rightarrow>
      if command = ''q'' \<or> command = ''quit'' then Return d wcout
      else if command = ''h'' \<or> command = ''help'' then Continue d (put wcout Help)
      else if command = ''write'' then
        (case read_bytes linestream wcout of (linestream1, writeBuf, wcout1) \<Rightarrow>
         if failbit linestream1 then
           Continue d (put wcout1 ''Usage: write { 55 a0 ... ff }\<newline>'')
         else write_transfer device d wcout1 writeBuf)
      else if command = ''read'' then
        (case extract_uint linestream of
           (None, linestream1) \<Rightarrow>
             Continue d (put wcout ''Expecting integer. e.g: read 4\<newline>'')
         | (Some bytesToRead, linestream1) \<Rightarrow> read_transfer device d wcout bytesToRead)
      else if command = ''writeread'' then
        (case read_bytes linestream wcout of (linestream1, writeBuf, wcout1) \<Rightarrow>
         if failbit linestream1 then
           Continue d (put wcout1 ''Usage: writeread { 55 a0 ... ff } 4\<newline>'')
         else
           (case extract_uint linestream1 of
              (None, linestream2) \<Rightarrow>
                Continue d
                  (put (put wcout1 ''Syntax error: expecting integer\<newline>'')
                       ''Usage: writeread { 55 a0 ... ff } 4\<newline>'')
            | (Some bytesToRead, linestream2) \<Rightarrow>
                writeread_transfer device d wcout1 writeBuf bytesToRead))
      else if command = ''info'' then Continue d (info device wcout)
      else if command = [] then Continue d wcout
      else
        Continue d
          (put (put (put wcout ''Unrecognized command: '') command)
               ''. Type 'help' for command usage.\<newline>''))"

text \<open>
  \<^verbatim>\<open>ShowPrompt\<close>.  Standard input is the list of the lines that \<^verbatim>\<open>std::getline\<close>
  delivers; after the last one the prompt is written once more, \<^verbatim>\<open>std::getline\<close>
  fails and the function returns.
\<close>

fun ShowPrompt :: "'d I2cDevice \<Rightarrow> 'd \<Rightarrow> ostream \<Rightarrow> string list \<Rightarrow> 'd outcome" where
  "ShowPrompt device d wcout [] = Return d (put wcout ''> '')"
| "ShowPrompt device d wcout (line # lines) =
     (case command_line device d (put wcout ''> '') line of
        Continue d' wcout' \<Rightarrow> ShowPrompt device d' wcout' lines
      | Return d' wcout' \<Rightarrow> Return d' wcout'
      | Throw e wcout' \<Rightarrow> Throw e wcout')"

section \<open>The program\<close>

text \<open>
  The platform calls of \<^verbatim>\<open>MakeDevice\<close> and \<^verbatim>\<open>wcstoul\<close> are parameters:
  \<open>FindAllAsync\<close> gives the identifiers of the buses that the selector for the
  friendly name finds, and \<open>FromIdAsync\<close> gives the opened device or nothing.
\<close>

record 'd platform =
  wcstoul :: "string \<Rightarrow> UINT32"
  FindAllAsync :: "string option \<Rightarrow> string list"
  FromIdAsync :: "string \<Rightarrow> UINT32 \<Rightarrow> 'd option"

definition MakeDevice :: "'d platform \<Rightarrow> UINT32 \<Rightarrow> string option \<Rightarrow> exn + 'd" where
  "MakeDevice plat slaveAddress friendlyName =
     (let dis = FindAllAsync plat friendlyName in
      if length dis \<noteq> 1 then Inl (wexception ''I2C bus not found'')
      else
        let id = hd dis in
        case FromIdAsync plat id slaveAddress of
          None \<Rightarrow>
            Inl (wexception
                  (''Slave address 0x'' @ show_hex (unat slaveAddress) @ '' on bus '' @ id @
                   '' is in use. Please ensure that no other applications are using I2C.''))
        | Some device \<Rightarrow> Inr device)"

definition PrintUsage :: "string \<Rightarrow> string" where
  "PrintUsage name =
     ''I2cTestTool: Command line I2C testing utility\<newline>'' @
     ''Usage: '' @ name @ '' SlaveAddress [FriendlyName]\<newline>'' @
     ''Examples:\<newline>'' @
     ''  '' @ name @ '' 0x57\<newline>'' @
     ''  '' @ name @ '' 0x57 I2C1\<newline>''"

text \<open>What the process leaves: its exit code and what it wrote.\<close>

record exit =
  code :: int
  stdout :: string
  stderr :: string

text \<open>
  \<^verbatim>\<open>main\<close>.  \<open>name\<close> is \<^verbatim>\<open>args[0]\<close> and \<open>params\<close> are the arguments after it;
  \<open>input\<close> is standard input, line by line.
\<close>

definition main ::
    "'d platform \<Rightarrow> 'd I2cDevice \<Rightarrow> string \<Rightarrow> string list \<Rightarrow> string list \<Rightarrow> exit" where
  "main plat device name params input =
     (case params of
        [] \<Rightarrow>
          \<lparr>code = 1, stdout = PrintUsage name,
           stderr = ''Missing required command line parameter SlaveAddress\<newline>\<newline>''\<rparr>
      | arg1 # args2 \<Rightarrow>
          if arg1 = ''-h'' then \<lparr>code = 0, stdout = PrintUsage name, stderr = []\<rparr>
          else
            let slaveAddress = wcstoul plat arg1;
                friendlyName = (case args2 of [] \<Rightarrow> None | arg2 # _ \<Rightarrow> Some arg2)
            in (case MakeDevice plat slaveAddress friendlyName of
                 Inl (wexception msg) \<Rightarrow>
                   \<lparr>code = 1, stdout = [], stderr = ''Error: '' @ msg @ ''\<newline>''\<rparr>
               | Inl (PlatformException msg) \<Rightarrow>
                   \<lparr>code = 0, stdout = [], stderr = ''Error: '' @ msg @ ''\<newline>''\<rparr>
               | Inr d \<Rightarrow>
                   (case ShowPrompt device d
                           (put \<lparr>written = [], out_hex = False\<rparr>
                                ''  Type 'help' for a list of commands\<newline>'')
                           input of
                      Throw (wexception msg) wcout \<Rightarrow>
                        \<lparr>code = 1, stdout = written wcout,
                         stderr = ''Error: '' @ msg @ ''\<newline>''\<rparr>
                    | Throw (PlatformException msg) wcout \<Rightarrow>
                        \<lparr>code = 0, stdout = written wcout,
                         stderr = ''Error: '' @ msg @ ''\<newline>''\<rparr>
                    | Continue d' wcout \<Rightarrow> \<lparr>code = 0, stdout = written wcout, stderr = []\<rparr>
                    | Return d' wcout \<Rightarrow> \<lparr>code = 0, stdout = written wcout, stderr = []\<rparr>)))"

section \<open>A device for examples\<close>

text \<open>
  An in-memory device that answers every transfer with the same result and the
  same stored bytes, and whose state is the list of the calls it has received.
\<close>

datatype bus_call =
    WriteCall "BYTE list"
  | ReadCall "BYTE list"
  | WriteReadCall "BYTE list" "BYTE list"

definition fake_device :: "I2cTransferResult \<Rightarrow> BYTE list \<Rightarrow> (bus_call list) I2cDevice" where
  "fake_device result stored =
     \<lparr>WritePartial = (\<lambda>d writeBuf. Inr (result, d @ [WriteCall writeBuf])),
      ReadPartial = (\<lambda>d readBuf. Inr ((result, stored), d @ [ReadCall readBuf])),
      WriteReadPartial =
        (\<lambda>d writeBuf readBuf. Inr ((result, stored), d @ [WriteReadCall writeBuf readBuf])),
      DeviceId = ''I2C1'', SlaveAddress = 0x57, BusSpeed = StandardMode\<rparr>"

text \<open>\<^verbatim>\<open>std::wcout\<close> when the program starts.\<close>

definition wcout0 :: ostream where
  "wcout0 = \<lparr>written = [], out_hex = False\<rparr>"

text \<open>
  The text of one byte in \<^verbatim>\<open>os << L" " << std::hex << byte\<close>, written out: a space,
  then one lowercase hexadecimal digit for a byte below \<^verbatim>\<open>0x10\<close> and two otherwise.
  \<open>written_put_bytes_text\<close> proves that this is what \<open>put_bytes\<close> writes.
\<close>

definition byte_text :: "BYTE \<Rightarrow> string" where
  "byte_text b =
     CHR '' '' #
     (if b < 0x10 then [hex_digit (unat b)]
      else [hex_digit (unat b div 16), hex_digit (unat b mod 16)])"

section \<open>Notions of the specification\<close>

text \<open>
  The text after the opening brace holds no token when, after white space, it is at
  its end or goes on with a character that starts no number.
\<close>

definition starts_no_number :: "string \<Rightarrow> bool" where
  "starts_no_number body =
     (case body of
        [] \<Rightarrow> True
      | x # _ \<Rightarrow> \<not> isspace x \<and> \<not> is_digit 16 x \<and> x \<noteq> CHR ''+'' \<and> x \<noteq> CHR ''-'')"

text \<open>
  A sequence of bytes as text: every byte as a space and its hexadecimal digits,
  which is how the program writes bytes (\<open>written_put_bytes\<close>) and how its help
  text asks for them.
\<close>

definition tokens :: "BYTE list \<Rightarrow> string" where
  "tokens bytes = concat (map (\<lambda>b. CHR '' '' # show_hex (unat b)) bytes)"

text \<open>The three values of the transfer status that the program names.\<close>

definition known_status :: "I2cTransferStatus \<Rightarrow> bool" where
  "known_status s = (s = FullTransfer \<or> s = PartialTransfer \<or> s = SlaveAddressNotAcknowledged)"

text \<open>A device none of whose transfers ever reports another status.\<close>

definition only_known_statuses :: "'d I2cDevice \<Rightarrow> bool" where
  "only_known_statuses device =
     ((\<forall>d writeBuf result d'.
         WritePartial device d writeBuf = Inr (result, d') \<longrightarrow> known_status (Status result)) \<and>
      (\<forall>d readBuf result stored d'.
         ReadPartial device d readBuf = Inr ((result, stored), d') \<longrightarrow>
         known_status (Status result)) \<and>
      (\<forall>d writeBuf readBuf result stored d'.
         WriteReadPartial device d writeBuf readBuf = Inr ((result, stored), d') \<longrightarrow>
         known_status (Status result)))"

text \<open>
  A line whose leading tokens are a complete recognised command with valid
  arguments: one of the commands without arguments, or a transfer command whose
  arguments the program parses without a failure.  What the parser of the byte
  buffer returns does not depend on its console argument (\<open>read_bytes_wcout\<close>).
\<close>

definition complete_command :: "string \<Rightarrow> bool" where
  "complete_command line =
     (case extract_word (istringstream line) of (command, linestream) \<Rightarrow>
      if command = ''q'' \<or> command = ''quit'' \<or> command = ''h'' \<or> command = ''help'' \<or>
         command = ''info'' then True
      else if command = ''write'' then \<not> failbit (fst (read_bytes linestream wcout0))
      else if command = ''read'' then fst (extract_uint linestream) \<noteq> None
      else if command = ''writeread'' then
        \<not> failbit (fst (read_bytes linestream wcout0)) \<and>
        fst (extract_uint (fst (read_bytes linestream wcout0))) \<noteq> None
      else False)"

text \<open>
  The status that the device reports for the transfer a line asks for, when the
  line asks for one and the call returns: the line is parsed as the program parses
  it, and the device is called as the program calls it.
\<close>

definition transfer_status :: "'d I2cDevice \<Rightarrow> 'd \<Rightarrow> string \<Rightarrow> I2cTransferStatus option" where
  "transfer_status device d line =
     (case extract_word (istringstream line) of (command, linestream) \<Rightarrow>
      if command = ''write'' then
        (case read_bytes linestream wcout0 of (linestream1, writeBuf, _) \<Rightarrow>
         if failbit linestream1 then None
         else (case WritePartial device d writeBuf of
                 Inl _ \<Rightarrow> None
               | Inr (result, _) \<Rightarrow> Some (Status result)))
      else if command = ''read'' then
        (case extract_uint linestream of
           (None, _) \<Rightarrow> None
         | (Some bytesToRead, _) \<Rightarrow>
             (case ReadPartial device d (new_Array bytesToRead) of
                Inl _ \<Rightarrow> None
              | Inr ((result, _), _) \<Rightarrow> Some (Status result)))
      else if command = ''writeread'' then
        (case read_bytes linestream wcout0 of (linestream1, writeBuf, _) \<Rightarrow>
         if failbit linestream1 then None
         else (case extract_uint linestream1 of
                 (None, _) \<Rightarrow> None
               | (Some bytesToRead, _) \<Rightarrow>
                   (case WriteReadPartial device d writeBuf (new_Array bytesToRead) of
                      Inl _ \<Rightarrow> None
                    | Inr ((result, _), _) \<Rightarrow> Some (Status result))))
      else None)"

text \<open>
  A session meets an unknown status when, line after line, it comes to a transfer
  for which the device reports a status outside the three known values.
\<close>

fun meets_unknown_status :: "'d I2cDevice \<Rightarrow> 'd \<Rightarrow> ostream \<Rightarrow> string list \<Rightarrow> bool" where
  "meets_unknown_status device d wcout [] = False"
| "meets_unknown_status device d wcout (line # lines) =
     (case transfer_status device d line of
        Some (OtherStatus _) \<Rightarrow> True
      | _ \<Rightarrow>
          (case command_line device d (put wcout ''> '') line of
             Continue d' wcout' \<Rightarrow> meets_unknown_status device d' wcout' lines
           | _ \<Rightarrow> False))"

text \<open>A platform for examples: one bus, and the device can be opened.\<close>

definition one_bus :: "(bus_call list) platform" where
  "one_bus =
     \<lparr>wcstoul = (\<lambda>s. 0x57), FindAllAsync = (\<lambda>friendlyName. [''I2C1'']),
      FromIdAsync = (\<lambda>id slaveAddress. Some [])\<rparr>"

section \<open>Evaluation and basic facts\<close>

lemma replicate_numeral: "replicate (numeral k) x = x # replicate (pred_numeral k) x"
  by (simp add: numeral_eq_Suc)

lemmas stream_defs =
  istringstream_def isspace_def put_def set_hex_def put_uint_def hex_digit_def
  digit_of_def is_digit_def digits_val_def get_sign_def get_prefix_def num_get_uint_def
  extract_uint_def extract_word_def
  expect_def read_bytes_def hex_loop.simps show_hex.simps show_dec.simps wcout0_def

lemmas command_defs =
  command_line_def write_transfer_def read_transfer_def writeread_transfer_def
  new_Array_def store_bytes_def fake_device_def replicate_numeral

lemma written_put [simp]: "written (put os s) = written os @ s"
  by (simp add: put_def)

lemma out_hex_put [simp]: "out_hex (put os s) = out_hex os"
  by (simp add: put_def)

lemma written_put_bytes:
  "written (put_bytes os bytes) =
     written os @ concat (map (\<lambda>b. CHR '' '' # show_hex (unat b)) bytes)"
  by (induction bytes arbitrary: os) (simp_all add: put_uint_def set_hex_def put_def)

lemma out_hex_put_bytes: "out_hex (put_bytes os bytes) = (out_hex os \<or> bytes \<noteq> [])"
  by (induction bytes arbitrary: os) (auto simp add: put_uint_def set_hex_def put_def)

lemma show_hex_byte:
  "show_hex (unat (b :: BYTE)) =
     (if b < 0x10 then [hex_digit (unat b)]
      else [hex_digit (unat b div 16), hex_digit (unat b mod 16)])"
proof -
  have "unat b < 256"
    using unsigned_less [of b, where ?'a = nat] by simp
  then have "unat b div 16 < 16" by simp
  then show ?thesis
    by (simp add: show_hex.simps [of "unat b"] show_hex.simps [of "unat b div 16"]
                  word_less_nat_alt)
qed

lemma length_store_bytes: "length (store_bytes readBuf stored) = length readBuf"
  by (simp add: store_bytes_def)

lemma length_new_Array: "length (new_Array n) = unat n"
  by (simp add: new_Array_def)

lemma written_put_bytes_text:
  "written (put_bytes os bytes) = written os @ concat (map byte_text bytes)"
proof -
  have "(\<lambda>b. CHR '' '' # show_hex (unat b)) = byte_text"
    by (rule ext) (simp only: byte_text_def show_hex_byte)
  then show ?thesis by (simp add: written_put_bytes)
qed

lemma written_put_uint_dec:
  "\<not> out_hex os \<Longrightarrow> written (put_uint os n) = written os @ show_dec n"
  by (simp add: put_uint_def)

lemma out_hex_put_uint [simp]: "out_hex (put_uint os n) = out_hex os"
  by (simp add: put_uint_def)

text \<open>
  \<^verbatim>\<open>bytesRead\<close> is positive exactly when more bytes were transferred than written,
  as long as both counts are below \<open>2 ^ 31\<close>.
\<close>

lemma bytesRead_positive_iff:
  fixes bt :: UINT32
  assumes "unat bt < 2 ^ 31" and "n < 2 ^ 31"
  shows "(0 < sint (bt - (of_nat n :: UINT32))) = (n < unat bt)"
proof -
  have a: "unat bt < 2147483648" "n < 2147483648" using assms by simp_all
  have eq: "bt - of_nat n = (word_of_int (int (unat bt) - int n) :: UINT32)"
    by simp
  have lo: "- 2147483648 \<le> int (unat bt) - int n" using a by linarith
  have hi: "int (unat bt) - int n < 2147483648" using a by linarith
  have "signed_take_bit (31::nat) (int (unat bt) - int n) = int (unat bt) - int n"
    using lo hi by (intro signed_take_bit_int_eq_self) simp_all
  then have "sint (bt - (of_nat n :: UINT32)) = int (unat bt) - int n"
    unfolding eq sint_sbintrunc' by simp
  then show ?thesis by linarith
qed

lemma expect_loop_skip:
  "\<forall>c \<in> set ws. isspace c \<Longrightarrow> \<not> isspace delim \<Longrightarrow>
     expect_loop delim (ws @ delim # s) = (True, s)"
  by (induction ws) auto

lemma dropWhile_skip:
  "\<forall>c \<in> set ws. isspace c \<Longrightarrow> \<not> isspace x \<Longrightarrow> dropWhile isspace (ws @ x # s) = x # s"
  by (induction ws) auto

section \<open>Numbers written are numbers read\<close>

lemma digit_of_hex_digit: "d < 16 \<Longrightarrow> digit_of (hex_digit d) = d"
proof -
  assume "d < 16"
  then have "d = 0 \<or> d = 1 \<or> d = 2 \<or> d = 3 \<or> d = 4 \<or> d = 5 \<or> d = 6 \<or> d = 7 \<or>
             d = 8 \<or> d = 9 \<or> d = 10 \<or> d = 11 \<or> d = 12 \<or> d = 13 \<or> d = 14 \<or> d = 15"
    by arith
  then show ?thesis
    by (elim disjE) (simp_all add: hex_digit_def digit_of_def)
qed

lemma digits_val_snoc: "digits_val base (ds @ [c]) = digits_val base ds * base + digit_of c"
  by (simp add: digits_val_def)

lemma digits_val_show_dec: "digits_val 10 (show_dec n) = n"
proof (induction n rule: show_dec.induct)
  case (1 n)
  show ?case
  proof (cases "n < 10")
    case True
    then show ?thesis
      by (simp add: show_dec.simps [of n] digits_val_def digit_of_hex_digit)
  next
    case False
    with 1 show ?thesis
      by (simp add: show_dec.simps [of n] digits_val_snoc digit_of_hex_digit)
  qed
qed

lemma digits_val_show_hex: "digits_val 16 (show_hex n) = n"
proof (induction n rule: show_hex.induct)
  case (1 n)
  show ?case
  proof (cases "n < 16")
    case True
    then show ?thesis
      by (simp add: show_hex.simps [of n] digits_val_def digit_of_hex_digit)
  next
    case False
    with 1 show ?thesis
      by (simp add: show_hex.simps [of n] digits_val_snoc digit_of_hex_digit)
  qed
qed

lemma show_dec_digits: "c \<in> set (show_dec n) \<Longrightarrow> is_digit 10 c"
proof (induction n rule: show_dec.induct)
  case (1 n)
  show ?case
  proof (cases "n < 10")
    case True
    with "1.prems" show ?thesis
      by (simp add: show_dec.simps [of n] is_digit_def digit_of_hex_digit)
  next
    case False
    with 1 show ?thesis
      by (auto simp add: show_dec.simps [of n] is_digit_def digit_of_hex_digit)
  qed
qed

lemma show_hex_digits: "c \<in> set (show_hex n) \<Longrightarrow> is_digit 16 c"
proof (induction n rule: show_hex.induct)
  case (1 n)
  show ?case
  proof (cases "n < 16")
    case True
    with "1.prems" show ?thesis
      by (simp add: show_hex.simps [of n] is_digit_def digit_of_hex_digit)
  next
    case False
    with 1 show ?thesis
      by (auto simp add: show_hex.simps [of n] is_digit_def digit_of_hex_digit)
  qed
qed

text \<open>A positive number starts with a digit that is not zero.\<close>

lemma show_dec_hd: "0 < n \<Longrightarrow> \<exists>c cs. show_dec n = c # cs \<and> 0 < digit_of c"
proof (induction n rule: show_dec.induct)
  case (1 n)
  show ?case
  proof (cases "n < 10")
    case True
    with "1.prems" show ?thesis
      by (simp add: show_dec.simps [of n] digit_of_hex_digit)
  next
    case False
    then have "0 < n div 10" by simp
    with 1 False obtain c cs where "show_dec (n div 10) = c # cs" "0 < digit_of c" by blast
    with False show ?thesis by (simp add: show_dec.simps [of n])
  qed
qed

lemma show_hex_hd: "0 < n \<Longrightarrow> \<exists>c cs. show_hex n = c # cs \<and> 0 < digit_of c"
proof (induction n rule: show_hex.induct)
  case (1 n)
  show ?case
  proof (cases "n < 16")
    case True
    with "1.prems" show ?thesis
      by (simp add: show_hex.simps [of n] digit_of_hex_digit)
  next
    case False
    then have "0 < n div 16" by simp
    with 1 False obtain c cs where "show_hex (n div 16) = c # cs" "0 < digit_of c" by blast
    with False show ?thesis by (simp add: show_hex.simps [of n])
  qed
qed

lemma num_get_uint_digits:
  assumes ds: "\<forall>c \<in> set (c # cs). is_digit (if h then 16 else 10) c"
    and c: "0 < digit_of c"
    and v: "digits_val (if h then 16 else 10) (c # cs) \<le> 0xFFFFFFFF"
  shows "num_get_uint h (c # cs) =
           (Some (of_nat (digits_val (if h then 16 else 10) (c # cs))), [])"
proof -
  have "digit_of c < 16" using ds by (simp add: is_digit_def split: if_splits)
  with c have "c \<noteq> CHR ''+''" "c \<noteq> CHR ''-''" "c \<noteq> CHR ''0''"
    by (auto simp: digit_of_def)
  then have s: "get_sign (c # cs) = (False, c # cs)" "get_prefix h (c # cs) = (False, c # cs)"
    by (simp_all add: get_sign_def get_prefix_def)
  have t: "takeWhile (is_digit (if h then 16 else 10)) (c # cs) = c # cs"
    using ds by (simp only: takeWhile_eq_all_conv)
  have d: "dropWhile (is_digit (if h then 16 else 10)) (c # cs) = []"
    using ds by (simp only: dropWhile_eq_Nil_conv)
  show ?thesis
    using v unfolding num_get_uint_def Let_def s prod.case t d
    by (simp only: not_less [symmetric]) simp
qed

lemma num_get_uint_show_dec:
  "n \<le> 0xFFFFFFFF \<Longrightarrow> num_get_uint False (show_dec n) = (Some (of_nat n), [])"
proof (cases "n = 0")
  case True
  then show ?thesis
    by (simp add: show_dec.simps [of 0] hex_digit_def num_get_uint_def get_sign_def
                  get_prefix_def digits_val_def)
next
  case False
  assume n: "n \<le> 0xFFFFFFFF"
  from False obtain c cs where cs: "show_dec n = c # cs" and c: "0 < digit_of c"
    using show_dec_hd [of n] by auto
  have "\<forall>x \<in> set (c # cs). is_digit (if False then 16 else 10) x"
    using show_dec_digits [of _ n] by (simp add: cs)
  from num_get_uint_digits [OF this c] n
  show ?thesis
    using digits_val_show_dec [of n] by (simp add: cs)
qed

lemma num_get_uint_show_hex:
  "n \<le> 0xFFFFFFFF \<Longrightarrow> num_get_uint True (show_hex n) = (Some (of_nat n), [])"
proof (cases "n = 0")
  case True
  then show ?thesis
    by (simp add: show_hex.simps [of 0] hex_digit_def num_get_uint_def get_sign_def
                  get_prefix_def digits_val_def)
next
  case False
  assume n: "n \<le> 0xFFFFFFFF"
  from False obtain c cs where cs: "show_hex n = c # cs" and c: "0 < digit_of c"
    using show_hex_hd [of n] by auto
  have "\<forall>x \<in> set (c # cs). is_digit (if True then 16 else 10) x"
    using show_hex_digits [of _ n] by (simp add: cs)
  from num_get_uint_digits [OF this c] n
  show ?thesis
    using digits_val_show_hex [of n] by (simp add: cs)
qed

lemma dropWhile_isspace_show_dec: "dropWhile isspace (show_dec n) = show_dec n"
proof (cases "show_dec n")
  case Nil
  then show ?thesis by simp
next
  case (Cons c cs)
  then have "is_digit 10 c" using show_dec_digits [of c n] by simp
  then have "\<not> isspace c" by (auto simp: is_digit_def digit_of_def isspace_def)
  then show ?thesis by (simp add: Cons)
qed

lemma dropWhile_isspace_show_hex: "dropWhile isspace (show_hex n) = show_hex n"
proof (cases "show_hex n")
  case Nil
  then show ?thesis by simp
next
  case (Cons c cs)
  then have "is_digit 16 c" using show_hex_digits [of c n] by simp
  then have "\<not> isspace c" by (auto simp: is_digit_def digit_of_def isspace_def)
  then show ?thesis by (simp add: Cons)
qed

section \<open>Reading stops at white space\<close>

text \<open>
  Every read of the program stops at a white space character as it stops at the end
  of the line: text after a white space changes neither what a read delivers nor
  where it stops.
\<close>

lemma takeWhile_append_stop:
  "\<not> P c \<Longrightarrow> takeWhile P (s @ c # e) = takeWhile P s"
  by (induction s) auto

lemma dropWhile_append_stop:
  "\<not> P c \<Longrightarrow> dropWhile P (s @ c # e) = dropWhile P s @ c # e"
  by (induction s) auto

lemma dropWhile_append_nonempty:
  "dropWhile P s \<noteq> [] \<Longrightarrow> dropWhile P (s @ t) = dropWhile P s @ t"
  by (induction s) auto

lemma takeWhile_append_nonempty:
  "dropWhile P s \<noteq> [] \<Longrightarrow> takeWhile P (s @ t) = takeWhile P s"
  by (induction s) auto

lemma isspace_not_numeric:
  "isspace c \<Longrightarrow>
     c \<noteq> CHR ''+'' \<and> c \<noteq> CHR ''-'' \<and> c \<noteq> CHR ''0'' \<and> c \<noteq> CHR ''x'' \<and> c \<noteq> CHR ''X'' \<and>
     \<not> is_digit 16 c \<and> \<not> is_digit 10 c"
  by (auto simp: isspace_def is_digit_def digit_of_def)

lemma get_sign_append_space:
  "isspace c \<Longrightarrow> get_sign (s @ c # e) = (fst (get_sign s), snd (get_sign s) @ c # e)"
  by (cases s) (auto simp: get_sign_def dest: isspace_not_numeric)

lemma get_prefix_append_space:
  "isspace c \<Longrightarrow> get_prefix h (s @ c # e) = (fst (get_prefix h s), snd (get_prefix h s) @ c # e)"
proof (cases s)
  case Nil
  assume "isspace c"
  with Nil show ?thesis by (auto simp: get_prefix_def dest: isspace_not_numeric)
next
  case (Cons a r)
  assume "isspace c"
  with Cons show ?thesis
    by (cases r) (auto simp: get_prefix_def dest: isspace_not_numeric)
qed

lemma num_get_uint_append_space:
  assumes "isspace c"
  shows "num_get_uint h (s @ c # e) =
           (fst (num_get_uint h s), snd (num_get_uint h s) @ c # e)"
proof -
  note c = isspace_not_numeric [OF assms]
  have tw: "takeWhile (is_digit 16) (xs @ c # e) = takeWhile (is_digit 16) xs"
           "takeWhile (is_digit 10) (xs @ c # e) = takeWhile (is_digit 10) xs" for xs
    using c by (simp_all add: takeWhile_append_stop)
  have dw: "dropWhile (is_digit 16) (xs @ c # e) = dropWhile (is_digit 16) xs @ c # e"
           "dropWhile (is_digit 10) (xs @ c # e) = dropWhile (is_digit 10) xs @ c # e" for xs
    using c by (simp_all add: dropWhile_append_stop)
  obtain m s1 where gs: "get_sign s = (m, s1)" by (cases "get_sign s")
  obtain sd s2 where gp: "get_prefix h s1 = (sd, s2)" by (cases "get_prefix h s1")
  have gs': "get_sign (s @ c # e) = (m, s1 @ c # e)"
    using get_sign_append_space [OF assms, of s e] gs by simp
  have gp': "get_prefix h (s1 @ c # e) = (sd, s2 @ c # e)"
    using get_prefix_append_space [OF assms, of h s1 e] gp by simp
  show ?thesis
    by (simp add: num_get_uint_def gs gs' gp gp' tw dw Let_def)
qed

lemma extract_uint_append_space:
  assumes c: "isspace c" and ok: "\<not> failbit is"
    and ex: "extract_uint is = (v, is')" and more: "v \<noteq> None \<or> rdbuf is' \<noteq> []"
  shows "extract_uint (is\<lparr>rdbuf := rdbuf is @ c # e\<rparr>) = (v, is'\<lparr>rdbuf := rdbuf is' @ c # e\<rparr>)"
proof -
  have ne: "dropWhile isspace (rdbuf is) \<noteq> []"
  proof
    assume "dropWhile isspace (rdbuf is) = []"
    with ok ex have "v = None \<and> rdbuf is' = []"
      by (auto simp: extract_uint_def num_get_uint_def get_sign_def get_prefix_def)
    with more show False by simp
  qed
  show ?thesis
    using ok ex
    by (auto simp: extract_uint_def dropWhile_append_nonempty [OF ne]
                   num_get_uint_append_space [OF c] split: prod.splits)
qed

lemma expect_loop_append:
  "expect_loop delim s = (True, r) \<Longrightarrow> expect_loop delim (s @ t) = (True, r @ t)"
  by (induction s) (auto split: if_splits)

lemma expect_append:
  "\<not> failbit (expect is delim) \<Longrightarrow>
     expect (is\<lparr>rdbuf := rdbuf is @ t\<rparr>) delim = (expect is delim)\<lparr>rdbuf := rdbuf (expect is delim) @ t\<rparr>"
proof -
  assume a: "\<not> failbit (expect is delim)"
  obtain f r where l: "expect_loop delim (rdbuf is) = (f, r)"
    by (cases "expect_loop delim (rdbuf is)")
  with a have "f" by (auto simp: expect_def split: if_splits)
  with l have "expect_loop delim (rdbuf is @ t) = (True, r @ t)"
    by (simp add: expect_loop_append)
  with l \<open>f\<close> a show ?thesis
    by (auto simp: expect_def split: if_splits)
qed

lemma expect_found_nonempty: "\<not> failbit (expect is delim) \<Longrightarrow> rdbuf is \<noteq> []"
  by (auto simp: expect_def split: if_splits prod.splits)


lemma extract_uint_Some_good: "extract_uint is = (Some v, is') \<Longrightarrow> \<not> failbit is \<and> \<not> failbit is'"
  by (auto simp: extract_uint_def split: if_splits prod.splits)

lemma hex_loop_append_space:
  assumes c: "isspace c"
  shows "hex_loop is bytes = (None, is2, bytes2) \<Longrightarrow> rdbuf is2 \<noteq> [] \<Longrightarrow> \<not> failbit is \<Longrightarrow>
     hex_loop (is\<lparr>rdbuf := rdbuf is @ c # e\<rparr>) bytes =
       (None, is2\<lparr>rdbuf := rdbuf is2 @ c # e\<rparr>, bytes2)"
proof (induction "is" bytes rule: hex_loop.induct)
  case (1 "is" bytes)
  obtain v is1 where ex: "extract_uint (is\<lparr>in_hex := True\<rparr>) = (v, is1)"
    by (cases "extract_uint (is\<lparr>in_hex := True\<rparr>)")
  have ok: "\<not> failbit (is\<lparr>in_hex := True\<rparr>)" using "1.prems" by simp
  have upd: "is\<lparr>rdbuf := rdbuf is @ c # e\<rparr>\<lparr>in_hex := True\<rparr> =
             (is\<lparr>in_hex := True\<rparr>)\<lparr>rdbuf := rdbuf (is\<lparr>in_hex := True\<rparr>) @ c # e\<rparr>"
    by simp
  show ?case
  proof (cases v)
    case None
    with ex "1.prems" have r: "is2 = is1" "bytes2 = bytes"
      by (simp_all add: hex_loop.simps [of "is"])
    with "1.prems" have "rdbuf is1 \<noteq> []" by simp
    with extract_uint_append_space [OF c ok ex, of e]
    have "extract_uint ((is\<lparr>in_hex := True\<rparr>)\<lparr>rdbuf := rdbuf (is\<lparr>in_hex := True\<rparr>) @ c # e\<rparr>) =
            (v, is1\<lparr>rdbuf := rdbuf is1 @ c # e\<rparr>)"
      by simp
    with None r show ?thesis
      by (simp add: hex_loop.simps [of "is\<lparr>rdbuf := rdbuf is @ c # e\<rparr>"] upd del: istream.simps)
  next
    case (Some b)
    with extract_uint_append_space [OF c ok ex, of e]
    have ex': "extract_uint ((is\<lparr>in_hex := True\<rparr>)\<lparr>rdbuf := rdbuf (is\<lparr>in_hex := True\<rparr>) @ c # e\<rparr>) =
            (Some b, is1\<lparr>rdbuf := rdbuf is1 @ c # e\<rparr>)"
      by simp
    from Some ex "1.prems" have small: "\<not> 0xff < b"
      by (auto simp: hex_loop.simps [of "is"] split: if_splits)
    with Some ex "1.prems" have rec: "hex_loop is1 (bytes @ [ucast b]) = (None, is2, bytes2)"
      by (simp add: hex_loop.simps [of "is"])
    have ok1: "\<not> failbit is1" using ex Some extract_uint_Some_good by blast
    from "1.IH" [OF ex [symmetric] Some small rec "1.prems"(2) ok1]
    have "hex_loop (is1\<lparr>rdbuf := rdbuf is1 @ c # e\<rparr>) (bytes @ [ucast b]) =
            (None, is2\<lparr>rdbuf := rdbuf is2 @ c # e\<rparr>, bytes2)" .
    with ex' small show ?thesis
      by (simp add: hex_loop.simps [of "is\<lparr>rdbuf := rdbuf is @ c # e\<rparr>"] upd del: istream.simps)
  qed
qed


lemma hex_loop_good: "\<not> failbit is \<Longrightarrow> hex_loop is bytes = (v, is2, bytes2) \<Longrightarrow> v = None \<Longrightarrow> failbit is2"
proof (induction "is" bytes rule: hex_loop.induct)
  case (1 "is" bytes)
  then show ?case
    by (auto simp: hex_loop.simps [of "is"] extract_uint_def
             split: prod.splits option.splits if_splits)
qed

lemma read_bytes_wcout:
  "fst (read_bytes is wcout) = fst (read_bytes is wcout') \<and>
   fst (snd (read_bytes is wcout)) = fst (snd (read_bytes is wcout'))"
  by (auto simp: read_bytes_def Let_def split: prod.splits option.splits)

lemma read_bytes_good_wcout:
  "\<not> failbit (fst (read_bytes is wcout)) \<Longrightarrow> snd (snd (read_bytes is wcout)) = wcout"
  by (auto simp: read_bytes_def Let_def split: prod.splits option.splits if_splits)

lemma read_bytes_append_space:
  assumes c: "isspace c" and good: "\<not> failbit (fst (read_bytes is wcout))"
  shows "read_bytes (is\<lparr>rdbuf := rdbuf is @ c # e\<rparr>) wcout =
           ((fst (read_bytes is wcout))\<lparr>rdbuf := rdbuf (fst (read_bytes is wcout)) @ c # e\<rparr>,
            fst (snd (read_bytes is wcout)), wcout)"
proof -
  let ?is1 = "expect is (CHR ''{'')"
  have g1: "\<not> failbit ?is1"
    using good by (auto simp: read_bytes_def Let_def split: if_splits)
  obtain v is2 bytes where hl: "hex_loop ?is1 [] = (v, is2, bytes)"
    by (cases "hex_loop ?is1 []")
  from good g1 hl have v: "v = None" and ne: "bytes \<noteq> []"
    by (auto simp: read_bytes_def Let_def split: if_splits option.splits)
  let ?is3 = "expect (is2\<lparr>failbit := False\<rparr>) (CHR ''}'')"
  from good g1 hl v ne have g3: "\<not> failbit ?is3"
    by (auto simp: read_bytes_def Let_def split: if_splits)
  from good g1 hl v ne have res: "read_bytes is wcout = (?is3, bytes, wcout)"
    by (auto simp: read_bytes_def Let_def split: if_splits)
  have ne2: "rdbuf is2 \<noteq> []"
    using expect_found_nonempty [OF g3] by simp
  have e1: "expect (is\<lparr>rdbuf := rdbuf is @ c # e\<rparr>) (CHR ''{'') =
            ?is1\<lparr>rdbuf := rdbuf ?is1 @ c # e\<rparr>"
    by (rule expect_append [OF g1])
  have h: "hex_loop (?is1\<lparr>rdbuf := rdbuf ?is1 @ c # e\<rparr>) [] =
            (None, is2\<lparr>rdbuf := rdbuf is2 @ c # e\<rparr>, bytes)"
    using hex_loop_append_space [OF c _ ne2 g1] hl v by simp
  have upd: "is2\<lparr>rdbuf := rdbuf is2 @ c # e\<rparr>\<lparr>failbit := False\<rparr> =
             (is2\<lparr>failbit := False\<rparr>)\<lparr>rdbuf := rdbuf (is2\<lparr>failbit := False\<rparr>) @ c # e\<rparr>"
    by simp
  have e3: "expect (is2\<lparr>rdbuf := rdbuf is2 @ c # e\<rparr>\<lparr>failbit := False\<rparr>) (CHR ''}'') =
            ?is3\<lparr>rdbuf := rdbuf ?is3 @ c # e\<rparr>"
    unfolding upd by (rule expect_append [OF g3])
  have g3': "\<not> failbit (?is3\<lparr>rdbuf := rdbuf ?is3 @ c # e\<rparr>)"
    using g3 by simp
  have "read_bytes (is\<lparr>rdbuf := rdbuf is @ c # e\<rparr>) wcout =
          (?is3\<lparr>rdbuf := rdbuf ?is3 @ c # e\<rparr>, bytes, wcout)"
    unfolding read_bytes_def Let_def e1 h prod.case option.case e3
    using g1 g3 ne by simp
  then show ?thesis by (simp add: res)
qed

lemma extract_word_append_space:
  assumes c: "isspace c" and w: "fst (extract_word is) \<noteq> []"
  shows "extract_word (is\<lparr>rdbuf := rdbuf is @ c # e\<rparr>) =
           (fst (extract_word is),
            (snd (extract_word is))\<lparr>rdbuf := rdbuf (snd (extract_word is)) @ c # e\<rparr>)"
proof -
  define s where "s = dropWhile isspace (rdbuf is)"
  from w have ok: "\<not> failbit is"
    by (auto simp: extract_word_def Let_def split: if_splits)
  from w have ne: "s \<noteq> []"
    unfolding s_def extract_word_def Let_def by (auto split: if_splits)
  have nc: "\<not> (\<lambda>c. \<not> isspace c) c" using c by simp
  have s': "dropWhile isspace (rdbuf is @ c # e) = s @ c # e"
    using ne unfolding s_def by (rule dropWhile_append_nonempty)
  have l: "extract_word is =
      (takeWhile (\<lambda>c. \<not> isspace c) s, is\<lparr>rdbuf := dropWhile (\<lambda>c. \<not> isspace c) s\<rparr>)"
    unfolding extract_word_def Let_def s_def [symmetric] using ok ne by simp
  have r: "extract_word (is\<lparr>rdbuf := rdbuf is @ c # e\<rparr>) =
      (takeWhile (\<lambda>c. \<not> isspace c) s,
       is\<lparr>rdbuf := dropWhile (\<lambda>c. \<not> isspace c) s @ c # e\<rparr>)"
    unfolding extract_word_def Let_def using ok
    by (simp add: s' takeWhile_append_stop [of "\<lambda>c. \<not> isspace c", OF nc]
                  dropWhile_append_stop [of "\<lambda>c. \<not> isspace c", OF nc])
  show ?thesis unfolding l r by simp
qed


section \<open>Bytes written are bytes read\<close>

text \<open>
  The parser reads a well-formed sequence of tokens back as the bytes it stands for
  (\<open>read_bytes_tokens\<close>), and it rejects the first token above \<^verbatim>\<open>ff\<close> that still
  fits 32 bits, after which the caller makes no transfer (\<open>write_out_of_range\<close>).
\<close>

lemma show_hex_Cons: "\<exists>c cs. show_hex n = c # cs \<and> is_digit 16 c"
proof -
  have "show_hex n \<noteq> []"
    by (induction n rule: show_hex.induct) (simp add: show_hex.simps)
  then obtain c cs where "show_hex n = c # cs" by (cases "show_hex n") auto
  with show_hex_digits [of c n] show ?thesis by simp
qed

lemma extract_uint_token:
  assumes c: "isspace c" and n: "n \<le> 0xFFFFFFFF"
  shows "extract_uint \<lparr>rdbuf = CHR '' '' # show_hex n @ c # e, failbit = False, in_hex = True\<rparr> =
           (Some (of_nat n), \<lparr>rdbuf = c # e, failbit = False, in_hex = True\<rparr>)"
proof -
  obtain x xs where x: "show_hex n = x # xs" "is_digit 16 x"
    using show_hex_Cons by blast
  then have "\<not> isspace x" by (auto simp: is_digit_def digit_of_def isspace_def)
  then have d: "dropWhile isspace (CHR '' '' # show_hex n @ c # e) = show_hex n @ c # e"
    by (simp add: x isspace_def)
  have g: "num_get_uint True (show_hex n @ c # e) = (Some (of_nat n), c # e)"
    using num_get_uint_append_space [OF c, of True "show_hex n" e] num_get_uint_show_hex [OF n]
    by simp
  show ?thesis
    unfolding extract_uint_def by (simp add: d g del: dropWhile.simps)
qed

lemma tokens_space: "isspace c \<Longrightarrow> \<exists>c' e'. tokens bytes @ c # e = c' # e' \<and> isspace c'"
  by (cases bytes) (auto simp: tokens_def isspace_def)

lemma byte_as_uint1:
  "\<not> 0xff < (ucast (b :: BYTE) :: UINT32)"
proof -
  have "unat b < 256" using unsigned_less [of b, where ?'a = nat] by simp
  moreover have "unat (ucast b :: UINT32) = unat b"
    using \<open>unat b < 256\<close> by (simp add: unsigned_ucast_eq take_bit_nat_eq_self)
  ultimately show ?thesis by (simp add: word_less_nat_alt)
qed

lemma byte_as_uint2:
  "(ucast (ucast (b :: BYTE) :: UINT32) :: BYTE) = b"
proof -
  have "is_up (ucast :: BYTE \<Rightarrow> UINT32)" by (simp add: is_up)
  from ucast_up_ucast_id [OF this] show ?thesis .
qed

lemma hex_loop_in_hex: "hex_loop (is\<lparr>in_hex := True\<rparr>) bytes = hex_loop is bytes"
  by (simp add: hex_loop.simps [of "is\<lparr>in_hex := True\<rparr>"] hex_loop.simps [of "is"])

lemma hex_loop_tokens:
  assumes c: "isspace c"
  shows "hex_loop \<lparr>rdbuf = tokens bytes @ c # e, failbit = False, in_hex = True\<rparr> acc =
         hex_loop \<lparr>rdbuf = c # e, failbit = False, in_hex = True\<rparr> (acc @ bytes)"
proof (induction bytes arbitrary: acc)
  case Nil
  show ?case by (simp add: tokens_def)
next
  case (Cons b bytes)
  obtain c' e' where t: "tokens bytes @ c # e = c' # e'" "isspace c'"
    using tokens_space [OF c] by blast
  have n: "unat b \<le> 0xFFFFFFFF"
    using unsigned_less [of b, where ?'a = nat] by simp
  have b: "tokens (b # bytes) @ c # e = CHR '' '' # show_hex (unat b) @ c' # e'"
    using t by (simp add: tokens_def)
  have "hex_loop \<lparr>rdbuf = tokens (b # bytes) @ c # e, failbit = False, in_hex = True\<rparr> acc =
        hex_loop \<lparr>rdbuf = c' # e', failbit = False, in_hex = True\<rparr> (acc @ [b])"
    unfolding b
    by (subst hex_loop.simps)
       (simp add: extract_uint_token [OF t(2) n] byte_as_uint1 byte_as_uint2)
  also have "\<dots> = hex_loop \<lparr>rdbuf = c # e, failbit = False, in_hex = True\<rparr> ((acc @ [b]) @ bytes)"
    using Cons.IH [of "acc @ [b]"] t by simp
  finally show ?case by simp
qed


lemma hex_loop_stops_at_brace:
  "hex_loop \<lparr>rdbuf = CHR '' '' # CHR ''}'' # rest, failbit = False, in_hex = True\<rparr> acc =
     (None, \<lparr>rdbuf = CHR ''}'' # rest, failbit = True, in_hex = True\<rparr>, acc)"
  by (subst hex_loop.simps)
     (simp add: extract_uint_def isspace_def num_get_uint_def get_sign_def get_prefix_def
                is_digit_def digit_of_def)

lemma read_bytes_tokens:
  assumes "bytes \<noteq> []" and ws: "\<forall>c \<in> set ws. isspace c"
  shows "read_bytes (istringstream (ws @ ''{'' @ tokens bytes @ '' }'' @ rest)) wcout =
           (\<lparr>rdbuf = rest, failbit = False, in_hex = True\<rparr>, bytes, wcout)"
proof -
  have e: "expect (istringstream (ws @ ''{'' @ tokens bytes @ '' }'' @ rest)) (CHR ''{'') =
      \<lparr>rdbuf = tokens bytes @ CHR '' '' # CHR ''}'' # rest, failbit = False, in_hex = False\<rparr>"
    using ws by (simp add: expect_def istringstream_def expect_loop_skip isspace_def)
  have "hex_loop \<lparr>rdbuf = tokens bytes @ CHR '' '' # CHR ''}'' # rest, failbit = False,
                   in_hex = False\<rparr> [] =
        hex_loop \<lparr>rdbuf = tokens bytes @ CHR '' '' # CHR ''}'' # rest, failbit = False,
                   in_hex = True\<rparr> []"
    using hex_loop_in_hex
      [of "\<lparr>rdbuf = tokens bytes @ CHR '' '' # CHR ''}'' # rest, failbit = False,
            in_hex = False\<rparr>" "[]"]
    by simp
  also have "\<dots> = hex_loop \<lparr>rdbuf = CHR '' '' # CHR ''}'' # rest, failbit = False,
                               in_hex = True\<rparr> bytes"
    using hex_loop_tokens [of "CHR '' ''" bytes "CHR ''}'' # rest" "[]"]
    by (simp add: isspace_def)
  finally have h: "hex_loop \<lparr>rdbuf = tokens bytes @ CHR '' '' # CHR ''}'' # rest,
                               failbit = False, in_hex = False\<rparr> [] =
      (None, \<lparr>rdbuf = CHR ''}'' # rest, failbit = True, in_hex = True\<rparr>, bytes)"
    by (simp add: hex_loop_stops_at_brace)
  show ?thesis
    unfolding read_bytes_def Let_def e using assms
    by (simp add: h expect_def)
qed

lemma read_bytes_out_of_range:
  assumes n: "0xff < n" "n \<le> 0xFFFFFFFF" and c: "isspace c"
    and ws: "\<forall>c \<in> set ws. isspace c"
  shows "read_bytes (istringstream (ws @ ''{'' @ tokens bytes @ '' '' @ show_hex n @ c # e))
           wcout =
           (\<lparr>rdbuf = c # e, failbit = True, in_hex = True\<rparr>, bytes,
            \<lparr>written = written wcout @ ''Out of range [0, 0xff]: '' @ show_hex n @ ''\<newline>'',
             out_hex = True\<rparr>)"
proof -
  let ?tail = "CHR '' '' # show_hex n @ c # e"
  have e: "expect (istringstream (ws @ ''{'' @ tokens bytes @ '' '' @ show_hex n @ c # e))
             (CHR ''{'') =
      \<lparr>rdbuf = tokens bytes @ ?tail, failbit = False, in_hex = False\<rparr>"
    using ws by (simp add: expect_def istringstream_def expect_loop_skip isspace_def)
  have u: "unat (of_nat n :: UINT32) = n"
    using n by (simp add: unat_of_nat)
  then have big: "0xff < (of_nat n :: UINT32)"
    using n by (simp add: word_less_nat_alt)
  have "hex_loop \<lparr>rdbuf = tokens bytes @ ?tail, failbit = False, in_hex = False\<rparr> [] =
        hex_loop \<lparr>rdbuf = tokens bytes @ ?tail, failbit = False, in_hex = True\<rparr> []"
    using hex_loop_in_hex
      [of "\<lparr>rdbuf = tokens bytes @ ?tail, failbit = False, in_hex = False\<rparr>" "[]"]
    by simp
  also have "\<dots> = hex_loop \<lparr>rdbuf = ?tail, failbit = False, in_hex = True\<rparr> bytes"
    using hex_loop_tokens [of "CHR '' ''" bytes "show_hex n @ c # e" "[]"]
    by (simp add: isspace_def)
  also have "\<dots> = (Some (of_nat n), \<lparr>rdbuf = c # e, failbit = False, in_hex = True\<rparr>, bytes)"
    using big by (subst hex_loop.simps) (simp add: extract_uint_token [OF c n(2)])
  finally have h: "hex_loop \<lparr>rdbuf = tokens bytes @ ?tail, failbit = False, in_hex = False\<rparr> [] =
      (Some (of_nat n), \<lparr>rdbuf = c # e, failbit = False, in_hex = True\<rparr>, bytes)" .
  show ?thesis
    unfolding read_bytes_def Let_def e
    by (simp add: h u put_def set_hex_def put_uint_def)
qed

lemma write_out_of_range:
  assumes n: "0xff < n" "n \<le> 0xFFFFFFFF" and c: "isspace c"
  shows "command_line device d wcout (''write {'' @ tokens bytes @ '' '' @ show_hex n @ c # e) =
           Continue d
             \<lparr>written = written wcout @ ''Out of range [0, 0xff]: '' @ show_hex n @
                          ''\<newline>Usage: write { 55 a0 ... ff }\<newline>'',
              out_hex = True\<rparr>"
proof -
  have w: "extract_word (istringstream (''write {'' @ tokens bytes @ '' '' @ show_hex n @ c # e)) =
      (''write'', istringstream ('' '' @ ''{'' @ tokens bytes @ '' '' @ show_hex n @ c # e))"
    by (simp add: extract_word_def istringstream_def isspace_def)
  have ws: "\<forall>c \<in> set '' ''. isspace c" by (simp add: isspace_def)
  show ?thesis
    unfolding command_line_def w prod.case read_bytes_out_of_range [OF n c ws]
    by (simp add: put_def)
qed

section \<open>Exceptions of the loop\<close>

lemma known_WritePartial:
  "only_known_statuses device \<Longrightarrow> WritePartial device d writeBuf = Inr (result, d') \<Longrightarrow>
     known_status (Status result)"
  unfolding only_known_statuses_def by blast

lemma known_ReadPartial:
  "only_known_statuses device \<Longrightarrow> ReadPartial device d readBuf = Inr ((result, stored), d') \<Longrightarrow>
     known_status (Status result)"
  unfolding only_known_statuses_def by blast

lemma known_WriteReadPartial:
  "only_known_statuses device \<Longrightarrow>
     WriteReadPartial device d writeBuf readBuf = Inr ((result, stored), d') \<Longrightarrow>
     known_status (Status result)"
  unfolding only_known_statuses_def by blast

lemma write_transfer_Throw:
  "write_transfer device d wcout writeBuf = Throw (wexception msg) w \<Longrightarrow>
     msg = ''Invalid transfer status value'' \<and> \<not> only_known_statuses device"
  by (auto simp: write_transfer_def known_status_def
           split: sum.splits prod.splits I2cTransferStatus.splits
           dest: known_WritePartial)

lemma read_transfer_Throw:
  "read_transfer device d wcout n = Throw (wexception msg) w \<Longrightarrow>
     msg = ''Invalid transfer status value'' \<and> \<not> only_known_statuses device"
  by (auto simp: read_transfer_def known_status_def Let_def
           split: sum.splits prod.splits I2cTransferStatus.splits
           dest: known_ReadPartial)

lemma writeread_transfer_Throw:
  "writeread_transfer device d wcout writeBuf n = Throw (wexception msg) w \<Longrightarrow>
     msg = ''Invalid transfer status value'' \<and> \<not> only_known_statuses device"
  by (auto simp: writeread_transfer_def known_status_def Let_def
           split: sum.splits prod.splits I2cTransferStatus.splits if_splits
           dest: known_WriteReadPartial)

lemma command_line_Throw:
  "command_line device d wcout line = Throw (wexception msg) w \<Longrightarrow>
     msg = ''Invalid transfer status value'' \<and> \<not> only_known_statuses device"
  unfolding command_line_def
  by (auto split: prod.splits if_splits option.splits
           dest: write_transfer_Throw read_transfer_Throw writeread_transfer_Throw)

lemma ShowPrompt_Throw:
  "ShowPrompt device d wcout input = Throw (wexception msg) w \<Longrightarrow>
     msg = ''Invalid transfer status value'' \<and> \<not> only_known_statuses device"
proof (induction input arbitrary: d wcout)
  case Nil
  then show ?case by simp
next
  case (Cons line lines)
  then show ?case
    by (auto split: outcome.splits dest: command_line_Throw)
qed

lemma only_known_statuses_fake_device:
  "known_status (Status result) \<Longrightarrow> only_known_statuses (fake_device result stored)"
  by (simp add: only_known_statuses_def fake_device_def)

text \<open>
  The loop throws a \<^verbatim>\<open>wexception\<close> exactly when the session meets an unknown
  status.
\<close>

lemma read_bytes_any_wcout:
  "read_bytes is wcout = (is1, bytes, wcout1) \<Longrightarrow>
     fst (read_bytes is wcout0) = is1 \<and> fst (snd (read_bytes is wcout0)) = bytes"
  using read_bytes_wcout [of "is" wcout wcout0] by simp

lemma command_line_wexception_iff:
  "(\<exists>msg w. command_line device d wcout line = Throw (wexception msg) w) =
   (\<exists>k. transfer_status device d line = Some (OtherStatus k))"
proof -
  obtain command ls where w: "extract_word (istringstream line) = (command, ls)"
    by (cases "extract_word (istringstream line)")
  obtain ls1 writeBuf wcout1 where rb: "read_bytes ls wcout = (ls1, writeBuf, wcout1)"
    by (cases "read_bytes ls wcout") auto
  obtain o1 o2 where rb0: "read_bytes ls wcout0 = (ls1, writeBuf, o2)"
    using read_bytes_any_wcout [OF rb] by (cases "read_bytes ls wcout0") auto
  show ?thesis
    unfolding command_line_def transfer_status_def w prod.case rb rb0
    by (auto simp: write_transfer_def read_transfer_def writeread_transfer_def Let_def
             split: sum.splits prod.splits option.splits I2cTransferStatus.splits if_splits)
qed


lemma ShowPrompt_wexception_iff:
  "(\<exists>msg w. ShowPrompt device d wcout input = Throw (wexception msg) w) =
   meets_unknown_status device d wcout input"
proof (induction input arbitrary: d wcout)
  case Nil
  show ?case by simp
next
  case (Cons line lines)
  show ?case
  proof (cases "\<exists>k. transfer_status device d line = Some (OtherStatus k)")
    case True
    then obtain msg w where
      t: "command_line device d (put wcout ''> '') line = Throw (wexception msg) w"
      using command_line_wexception_iff [of device d "put wcout ''> ''" line] by blast
    from True t show ?thesis by auto
  next
    case False
    then have n: "\<not> (\<exists>msg w. command_line device d (put wcout ''> '') line =
                          Throw (wexception msg) w)"
      using command_line_wexception_iff [of device d "put wcout ''> ''" line] by blast
    from False have m: "meets_unknown_status device d wcout (line # lines) =
        (case command_line device d (put wcout ''> '') line of
           Continue d' wcout' \<Rightarrow> meets_unknown_status device d' wcout' lines
         | _ \<Rightarrow> False)"
      by (auto split: option.splits I2cTransferStatus.splits)
    show ?thesis
    proof (cases "command_line device d (put wcout ''> '') line")
      case (Continue d' wcout')
      with m Cons.IH [of d' wcout'] show ?thesis by simp
    next
      case (Return d' wcout')
      with m show ?thesis by simp
    next
      case (Throw e wcout')
      with n obtain pm where "e = PlatformException pm" by (cases e) auto
      with Throw m show ?thesis by simp
    qed
  qed
qed

section \<open>Commands in their plain spelling\<close>

lemma new_Array_of_nat: "n < 2 ^ 32 \<Longrightarrow> new_Array (of_nat n) = replicate n 0"
  by (simp add: new_Array_def unat_of_nat)

lemma command_line_read_dec:
  assumes "n < 2 ^ 32"
  shows "command_line device d wcout (''read '' @ show_dec n) =
           read_transfer device d wcout (of_nat n)"
proof -
  from assms have n: "n \<le> 0xFFFFFFFF" by simp
  have w: "extract_word (istringstream (''read '' @ show_dec n)) =
      (''read'', \<lparr>rdbuf = CHR '' '' # show_dec n, failbit = False, in_hex = False\<rparr>)"
    by (simp add: extract_word_def istringstream_def isspace_def)
  have u: "extract_uint \<lparr>rdbuf = CHR '' '' # show_dec n, failbit = False, in_hex = False\<rparr> =
      (Some (of_nat n), \<lparr>rdbuf = [], failbit = False, in_hex = False\<rparr>)"
    using num_get_uint_show_dec [OF n] dropWhile_isspace_show_dec [of n]
    by (simp add: extract_uint_def isspace_def)
  show ?thesis
    unfolding command_line_def w by (simp add: u)
qed

lemma command_line_writeread_digit:
  assumes "n < 10" and "writeBuf \<noteq> []"
  shows "command_line device d wcout (''writeread {'' @ tokens writeBuf @ '' } '' @ show_dec n) =
           writeread_transfer device d wcout writeBuf (of_nat n)"
proof -
  from assms have n: "n \<le> 0xFFFFFFFF" by simp
  from assms have sh: "show_dec n = show_hex n"
    by (simp add: show_dec.simps [of n] show_hex.simps [of n])
  have w: "extract_word (istringstream (''writeread {'' @ tokens writeBuf @ '' } '' @ show_hex n)) =
      (''writeread'',
       istringstream ('' '' @ ''{'' @ tokens writeBuf @ '' }'' @ CHR '' '' # show_hex n))"
    by (simp add: extract_word_def istringstream_def isspace_def)
  have ws: "\<forall>c \<in> set '' ''. isspace c" by (simp add: isspace_def)
  have u: "extract_uint \<lparr>rdbuf = CHR '' '' # show_hex n, failbit = False, in_hex = True\<rparr> =
      (Some (of_nat n), \<lparr>rdbuf = [], failbit = False, in_hex = True\<rparr>)"
    using num_get_uint_show_hex [OF n] dropWhile_isspace_show_hex [of n]
    by (simp add: extract_uint_def isspace_def)
  show ?thesis
    unfolding sh command_line_def w prod.case read_bytes_tokens [OF assms(2) ws]
    by (simp add: u)
qed

text \<open>The loop of the parser stops with a value only when the value is above \<^verbatim>\<open>0xff\<close>.\<close>

lemma hex_loop_Some:
  "hex_loop is bytes = (Some byte, is', bytes') \<Longrightarrow> 0xff < byte"
proof (induction "is" bytes rule: hex_loop.induct)
  case (1 "is" bytes)
  show ?case
  proof (cases "extract_uint (is\<lparr>in_hex := True\<rparr>)")
    case (Pair v is1)
    show ?thesis
    proof (cases v)
      case None
      with Pair "1.prems" show ?thesis by (simp add: hex_loop.simps [of "is"])
    next
      case (Some b)
      show ?thesis
      proof (cases "0xff < b")
        case True
        with Pair Some "1.prems" show ?thesis by (simp add: hex_loop.simps [of "is"])
      next
        case False
        with Pair Some "1.prems"
        have "hex_loop is1 (bytes @ [ucast b]) = (Some byte, is', bytes')"
          by (simp add: hex_loop.simps [of "is"])
        with "1.IH" [OF Pair [symmetric] Some False] show ?thesis by simp
      qed
    qed
  qed
qed

section \<open>What a transfer writes to the console\<close>

text \<open>
  Claim C1, as stated, fails.  \<^verbatim>\<open>writeread { 1 2 3 } 4\<close> against a device that reports
  a partial transfer of 5 bytes and has stored \<^verbatim>\<open>0x11\<close> and \<^verbatim>\<open>0x22\<close>: the write
  length is 3 and the combined count is 5, yet all four bytes of the read buffer are
  written, not the first two.
\<close>

theorem writeread_3_partial_5_counterexample:
  "command_line (fake_device \<lparr>Status = PartialTransfer, BytesTransferred = 5\<rparr> [0x11, 0x22])
       [] wcout0 ''writeread { 1 2 3 } 4'' =
     Continue [WriteReadCall [1, 2, 3] [0, 0, 0, 0]]
       \<lparr>written = ''Partial Transfer. Transferred 5 bytes\<newline> 11 22 0 0\<newline>'',
        out_hex = True\<rparr>"
  by (simp add: stream_defs command_defs)

text \<open>
  Claim C1, amended.  When a write-read transfer ends in a partial transfer and the
  console is still in decimal mode, the line with the decimal count is written, and
  then \<^verbatim>\<open>bytesRead\<close>, the 32-bit difference of the count and the write length read as
  a signed number, decides: when it is positive the whole read buffer follows, all
  of its requested bytes, each as \<open>byte_text\<close> and then a newline; otherwise nothing
  follows.
\<close>

theorem writeread_partial_renders_whole_buffer:
  "WriteReadPartial device d writeBuf (new_Array n) = Inr ((result, stored), d') \<and>
   Status result = PartialTransfer \<and> \<not> out_hex wcout \<longrightarrow>
     (case writeread_transfer device d wcout writeBuf n of
        Continue d'' wcout' \<Rightarrow>
          d'' = d' \<and>
          written wcout' =
            written wcout @ ''Partial Transfer. Transferred '' @
            show_dec (unat (BytesTransferred result)) @ '' bytes\<newline>'' @
            (if 0 < sint (BytesTransferred result - (of_nat (length writeBuf) :: UINT32))
             then concat (map byte_text (store_bytes (new_Array n) stored)) @ ''\<newline>''
             else [])
      | _ \<Rightarrow> False) \<and>
     length (store_bytes (new_Array n) stored) = unat n"
  by (simp add: writeread_transfer_def written_put_bytes_text written_put_uint_dec
                length_store_bytes length_new_Array)

theorem writeread_partial_renders_whole_buffer_witness:
  "writeread_transfer
       (fake_device \<lparr>Status = PartialTransfer, BytesTransferred = 5\<rparr> [0x11, 0x22])
       [] wcout0 [1, 2, 3] 4 =
     Continue [WriteReadCall [1, 2, 3] [0, 0, 0, 0]]
       \<lparr>written = ''Partial Transfer. Transferred 5 bytes\<newline> 11 22 0 0\<newline>'',
        out_hex = True\<rparr> \<and>
   writeread_transfer
       (fake_device \<lparr>Status = PartialTransfer, BytesTransferred = 1\<rparr> [])
       [] wcout0 [0xff] 2 =
     Continue [WriteReadCall [0xff] [0, 0]]
       \<lparr>written = ''Partial Transfer. Transferred 1 bytes\<newline>'', out_hex = False\<rparr>"
  using writeread_partial_renders_whole_buffer
    [of "fake_device \<lparr>Status = PartialTransfer, BytesTransferred = 5\<rparr> [0x11, 0x22]" "[]"
        "[1, 2, 3]" 4 "\<lparr>Status = PartialTransfer, BytesTransferred = 5\<rparr>" "[0x11, 0x22]"
        "[WriteReadCall [1, 2, 3] [0, 0, 0, 0]]" wcout0]
  by (simp add: stream_defs command_defs)

text \<open>
  Claim C2.  Whatever the command, when the device reports that the slave address
  was not acknowledged, the program writes the fixed message and nothing else,
  whatever the byte count of the result and whatever the device has stored in the
  read buffer.
\<close>

theorem not_acknowledged_message:
  "(WritePartial device d writeBuf = Inr (result, d') \<and>
      Status result = SlaveAddressNotAcknowledged \<longrightarrow>
      write_transfer device d wcout writeBuf =
        Continue d' (put wcout ''Slave address was not acknowledged\<newline>'')) \<and>
   (ReadPartial device d (new_Array n) = Inr ((result, stored), d') \<and>
      Status result = SlaveAddressNotAcknowledged \<longrightarrow>
      read_transfer device d wcout n =
        Continue d' (put wcout ''Slave address was not acknowledged\<newline>'')) \<and>
   (WriteReadPartial device d writeBuf (new_Array n) = Inr ((result, stored), d') \<and>
      Status result = SlaveAddressNotAcknowledged \<longrightarrow>
      writeread_transfer device d wcout writeBuf n =
        Continue d' (put wcout ''Slave address was not acknowledged\<newline>''))"
  by (simp add: write_transfer_def read_transfer_def writeread_transfer_def)

theorem not_acknowledged_message_witness:
  "command_line
       (fake_device \<lparr>Status = SlaveAddressNotAcknowledged, BytesTransferred = 7\<rparr> [0x11])
       [] wcout0 ''write { 1 2 }'' =
     Continue [WriteCall [1, 2]]
       \<lparr>written = ''Slave address was not acknowledged\<newline>'', out_hex = False\<rparr> \<and>
   command_line
       (fake_device \<lparr>Status = SlaveAddressNotAcknowledged, BytesTransferred = 7\<rparr> [0x11])
       [] wcout0 ''read 2'' =
     Continue [ReadCall [0, 0]]
       \<lparr>written = ''Slave address was not acknowledged\<newline>'', out_hex = False\<rparr> \<and>
   command_line
       (fake_device \<lparr>Status = SlaveAddressNotAcknowledged, BytesTransferred = 7\<rparr> [0x11])
       [] wcout0 ''writeread { 1 2 } 2'' =
     Continue [WriteReadCall [1, 2] [0, 0]]
       \<lparr>written = ''Slave address was not acknowledged\<newline>'', out_hex = False\<rparr>"
proof -
  let ?r = "\<lparr>Status = SlaveAddressNotAcknowledged, BytesTransferred = 7\<rparr>"
  let ?dev = "fake_device ?r [0x11]"
  have w: "write_transfer ?dev [] wcout0 [1, 2] =
      Continue [WriteCall [1, 2]] (put wcout0 ''Slave address was not acknowledged\<newline>'')"
    using not_acknowledged_message
      [where device = ?dev and d = "[]" and writeBuf = "[1, 2]" and result = ?r
         and d' = "[WriteCall [1, 2]]"]
    by (simp add: fake_device_def)
  have r: "read_transfer ?dev [] wcout0 2 =
      Continue [ReadCall [0, 0]] (put wcout0 ''Slave address was not acknowledged\<newline>'')"
    using not_acknowledged_message
      [where device = ?dev and d = "[]" and n = 2 and result = ?r and stored = "[0x11]"
         and d' = "[ReadCall [0, 0]]"]
    by (simp add: fake_device_def new_Array_def replicate_numeral)
  have wr: "writeread_transfer ?dev [] wcout0 [1, 2] 2 =
      Continue [WriteReadCall [1, 2] [0, 0]]
        (put wcout0 ''Slave address was not acknowledged\<newline>'')"
    using not_acknowledged_message
      [where device = ?dev and d = "[]" and writeBuf = "[1, 2]" and n = 2 and result = ?r
         and stored = "[0x11]" and d' = "[WriteReadCall [1, 2] [0, 0]]"]
    by (simp add: fake_device_def new_Array_def replicate_numeral)
  have 1: "command_line ?dev [] wcout0 ''write { 1 2 }'' = write_transfer ?dev [] wcout0 [1, 2]"
    by (simp add: command_line_def stream_defs)
  have 2: "command_line ?dev [] wcout0 ''read 2'' = read_transfer ?dev [] wcout0 2"
    by (simp add: command_line_def stream_defs)
  have 3: "command_line ?dev [] wcout0 ''writeread { 1 2 } 2'' =
      writeread_transfer ?dev [] wcout0 [1, 2] 2"
    by (simp add: command_line_def stream_defs)
  show ?thesis
    unfolding 1 2 3 w r wr by (simp add: put_def wcout0_def)
qed

text \<open>
  Claim C3, as stated, fails.  \<^verbatim>\<open>read 4\<close> against a device that reports a partial
  transfer of 2 bytes and has stored \<^verbatim>\<open>0x11\<close> and \<^verbatim>\<open>0x22\<close>: the second line holds
  all four bytes of the buffer, and it starts with a space.
\<close>

theorem read_4_partial_2_counterexample:
  "command_line (fake_device \<lparr>Status = PartialTransfer, BytesTransferred = 2\<rparr> [0x11, 0x22])
       [] wcout0 ''read 4'' =
     Continue [ReadCall [0, 0, 0, 0]]
       \<lparr>written = ''Partial Transfer. Transferred 2 bytes\<newline> 11 22 0 0\<newline>'',
        out_hex = True\<rparr>"
  by (simp add: stream_defs command_defs)

text \<open>
  Claim C3, amended.  When a read ends in a partial transfer and the console is
  still in decimal mode, the line with the decimal count is written and after it
  the whole read buffer, all of its requested bytes whether the device has stored
  them or not, each as \<open>byte_text\<close>, and a newline.
\<close>

theorem partial_read_renders_whole_buffer:
  "ReadPartial device d (new_Array n) = Inr ((result, stored), d') \<and>
   Status result = PartialTransfer \<and> \<not> out_hex wcout \<longrightarrow>
     (case read_transfer device d wcout n of
        Continue d'' wcout' \<Rightarrow>
          d'' = d' \<and>
          written wcout' =
            written wcout @ ''Partial Transfer. Transferred '' @
            show_dec (unat (BytesTransferred result)) @ '' bytes\<newline>'' @
            concat (map byte_text (store_bytes (new_Array n) stored)) @ ''\<newline>''
      | _ \<Rightarrow> False) \<and>
     length (store_bytes (new_Array n) stored) = unat n"
  by (simp add: read_transfer_def written_put_bytes_text written_put_uint_dec
                length_store_bytes length_new_Array)

theorem partial_read_renders_whole_buffer_witness:
  "read_transfer (fake_device \<lparr>Status = PartialTransfer, BytesTransferred = 2\<rparr> [0x11, 0x22])
       [] wcout0 4 =
     Continue [ReadCall [0, 0, 0, 0]]
       \<lparr>written = ''Partial Transfer. Transferred 2 bytes\<newline> 11 22 0 0\<newline>'',
        out_hex = True\<rparr> \<and>
   length (store_bytes (new_Array 4) [0x11, 0x22]) = 4"
  using partial_read_renders_whole_buffer
    [of "fake_device \<lparr>Status = PartialTransfer, BytesTransferred = 2\<rparr> [0x11, 0x22]" "[]" 4
        "\<lparr>Status = PartialTransfer, BytesTransferred = 2\<rparr>" "[0x11, 0x22]"
        "[ReadCall [0, 0, 0, 0]]" wcout0]
  by (simp add: stream_defs command_defs)

text \<open>
  Claim C4, as stated, fails.  The bytes \<^verbatim>\<open>0x0a\<close> and \<^verbatim>\<open>0xff\<close> of a full read
  are written as \<^verbatim>\<open> a ff\<close>: a space comes before every byte, the first too, and a byte
  below \<^verbatim>\<open>0x10\<close> has one digit.
\<close>

theorem full_read_0a_ff_counterexample:
  "written (put_bytes wcout0 [0x0a, 0xff]) = '' a ff'' \<and>
   written (put_bytes wcout0 [0x0a, 0xff]) \<noteq> ''0a ff'' \<and>
   command_line (fake_device \<lparr>Status = FullTransfer, BytesTransferred = 2\<rparr> [0x0a, 0xff])
       [] wcout0 ''read 2'' =
     Continue [ReadCall [0, 0]] \<lparr>written = '' a ff\<newline>'', out_hex = True\<rparr>"
  by (simp add: stream_defs command_defs)

text \<open>
  Claim C4, amended.  After a full transfer of a read or a write-read the program
  writes every byte of the read buffer as \<open>byte_text\<close>, that is a space and the
  lowercase hexadecimal digits of the byte with no \<^verbatim>\<open>0x\<close> and no padding, and then
  a newline.
\<close>

theorem full_transfer_renders_unpadded_hex:
  "(ReadPartial device d (new_Array n) = Inr ((result, stored), d') \<and>
      Status result = FullTransfer \<longrightarrow>
      (case read_transfer device d wcout n of
         Continue d'' wcout' \<Rightarrow>
           d'' = d' \<and>
           written wcout' =
             written wcout @ concat (map byte_text (store_bytes (new_Array n) stored)) @
             ''\<newline>''
       | _ \<Rightarrow> False)) \<and>
   (WriteReadPartial device d writeBuf (new_Array n) = Inr ((result, stored), d') \<and>
      Status result = FullTransfer \<longrightarrow>
      (case writeread_transfer device d wcout writeBuf n of
         Continue d'' wcout' \<Rightarrow>
           d'' = d' \<and>
           written wcout' =
             written wcout @ concat (map byte_text (store_bytes (new_Array n) stored)) @
             ''\<newline>''
       | _ \<Rightarrow> False))"
  by (simp add: read_transfer_def writeread_transfer_def written_put_bytes_text)

theorem full_transfer_renders_unpadded_hex_witness:
  "read_transfer (fake_device \<lparr>Status = FullTransfer, BytesTransferred = 2\<rparr> [0x0a, 0xff])
       [] wcout0 2 =
     Continue [ReadCall [0, 0]] \<lparr>written = '' a ff\<newline>'', out_hex = True\<rparr> \<and>
   writeread_transfer (fake_device \<lparr>Status = FullTransfer, BytesTransferred = 3\<rparr> [0x0a, 0xff])
       [] wcout0 [0x01] 2 =
     Continue [WriteReadCall [1] [0, 0]] \<lparr>written = '' a ff\<newline>'', out_hex = True\<rparr> \<and>
   concat (map byte_text [0x0a, 0xff]) = '' a ff''"
  using full_transfer_renders_unpadded_hex
    [of "fake_device \<lparr>Status = FullTransfer, BytesTransferred = 2\<rparr> [0x0a, 0xff]" "[]" 2
        "\<lparr>Status = FullTransfer, BytesTransferred = 2\<rparr>" "[0x0a, 0xff]" "[ReadCall [0, 0]]"
        wcout0]
  by (simp add: stream_defs command_defs byte_text_def)

section \<open>What the parser of the byte buffer accepts\<close>

text \<open>
  Claim C5.  When the text between the braces holds no token, as in \<^verbatim>\<open>{ }\<close> and
  \<^verbatim>\<open>{}\<close>, the parser stops there, reports that zero-length buffers are not allowed,
  and leaves the stream failed and the buffer empty.  And whatever the input is, a
  parse that leaves the stream good has produced at least one byte.
\<close>

theorem zero_length_buffer_rejected:
  "((\<forall>c \<in> set ws1 \<union> set ws2. isspace c) \<and> \<not> failbit is \<and>
      rdbuf is = ws1 @ ''{'' @ ws2 @ body \<and> starts_no_number body \<longrightarrow>
      read_bytes is wcout =
        (is\<lparr>rdbuf := body, failbit := True, in_hex := True\<rparr>, [],
         put wcout ''Zero-length buffers are not allowed\<newline>'')) \<and>
   (\<not> failbit (fst (read_bytes is wcout)) \<longrightarrow> fst (snd (read_bytes is wcout)) \<noteq> [])"
proof (intro conjI impI)
  assume a: "(\<forall>c \<in> set ws1 \<union> set ws2. isspace c) \<and> \<not> failbit is \<and>
      rdbuf is = ws1 @ ''{'' @ ws2 @ body \<and> starts_no_number body"
  then have ok: "\<not> failbit is" by simp
  have e: "expect is (CHR ''{'') = is\<lparr>rdbuf := ws2 @ body\<rparr>"
    using a by (simp add: expect_def expect_loop_skip isspace_def)
  have n: "num_get_uint True body = (None, body)"
    using a
    by (cases body)
       (auto simp: starts_no_number_def num_get_uint_def get_sign_def get_prefix_def
                   is_digit_def digit_of_def)
  have d: "dropWhile isspace (ws2 @ body) = body"
  proof (cases body)
    case Nil
    with a show ?thesis by simp
  next
    case (Cons x r)
    with a show ?thesis by (simp add: dropWhile_skip starts_no_number_def)
  qed
  have h: "hex_loop (is\<lparr>rdbuf := ws2 @ body\<rparr>) [] =
      (None, is\<lparr>rdbuf := body, failbit := True, in_hex := True\<rparr>, [])"
    using ok n d by (simp add: hex_loop.simps extract_uint_def)
  show "read_bytes is wcout =
        (is\<lparr>rdbuf := body, failbit := True, in_hex := True\<rparr>, [],
         put wcout ''Zero-length buffers are not allowed\<newline>'')"
    using ok by (simp add: read_bytes_def e h)
next
  assume "\<not> failbit (fst (read_bytes is wcout))"
  then show "fst (snd (read_bytes is wcout)) \<noteq> []"
    by (auto simp: read_bytes_def Let_def split: if_splits prod.splits option.splits)
qed

theorem zero_length_buffer_rejected_witness:
  "read_bytes (istringstream ''{ }'') wcout0 =
     (\<lparr>rdbuf = ''}'', failbit = True, in_hex = True\<rparr>, [],
      \<lparr>written = ''Zero-length buffers are not allowed\<newline>'', out_hex = False\<rparr>) \<and>
   read_bytes (istringstream ''{}'') wcout0 =
     (\<lparr>rdbuf = ''}'', failbit = True, in_hex = True\<rparr>, [],
      \<lparr>written = ''Zero-length buffers are not allowed\<newline>'', out_hex = False\<rparr>) \<and>
   \<not> failbit (fst (read_bytes (istringstream ''{ 1 }'') wcout0)) \<and>
   fst (snd (read_bytes (istringstream ''{ 1 }'') wcout0)) \<noteq> []"
proof -
  have 1: "read_bytes (istringstream ''{ }'') wcout0 =
     (\<lparr>rdbuf = ''}'', failbit = True, in_hex = True\<rparr>, [],
      \<lparr>written = ''Zero-length buffers are not allowed\<newline>'', out_hex = False\<rparr>)"
    using zero_length_buffer_rejected
      [of "[]" "'' ''" "istringstream ''{ }''" "''}''" wcout0]
    by (simp add: istringstream_def isspace_def put_def wcout0_def starts_no_number_def
                  is_digit_def digit_of_def)
  have 2: "read_bytes (istringstream ''{}'') wcout0 =
     (\<lparr>rdbuf = ''}'', failbit = True, in_hex = True\<rparr>, [],
      \<lparr>written = ''Zero-length buffers are not allowed\<newline>'', out_hex = False\<rparr>)"
    using zero_length_buffer_rejected
      [of "[]" "[]" "istringstream ''{}''" "''}''" wcout0]
    by (simp add: istringstream_def isspace_def put_def wcout0_def starts_no_number_def
                  is_digit_def digit_of_def)
  have 3: "\<not> failbit (fst (read_bytes (istringstream ''{ 1 }'') wcout0))"
    by (simp add: stream_defs)
  have 4: "fst (snd (read_bytes (istringstream ''{ 1 }'') wcout0)) \<noteq> []"
    using zero_length_buffer_rejected [of _ _ "istringstream ''{ 1 }''" _ wcout0] 3
    by blast
  show ?thesis using 1 2 3 4 by simp
qed

text \<open>
  Claim C6 holds for a token from \<^verbatim>\<open>100\<close> to \<^verbatim>\<open>ffffffff\<close> after well-formed bytes, by
  \<open>read_bytes_out_of_range\<close> and \<open>write_out_of_range\<close>: the loop leaves with the
  value, the parser reports it and fails, and the caller drops the bytes read
  before.  An example:
\<close>

lemma token_100_rejected:
  "command_line (fake_device \<lparr>Status = FullTransfer, BytesTransferred = 1\<rparr> []) [] wcout0
       ''write { 1 100 2 }'' =
     Continue []
       \<lparr>written =
          ''Out of range [0, 0xff]: 100\<newline>Usage: write { 55 a0 ... ff }\<newline>'',
        out_hex = True\<rparr>"
  by (simp add: stream_defs command_defs)

text \<open>
  Claim C6 fails in the code for a token that does not fit 32 bits.  The extraction
  of \<^verbatim>\<open>100000000\<close> consumes the digits and fails, which ends the loop as the closing
  brace does; the test against \<^verbatim>\<open>0xff\<close> is never reached.  With a byte read before,
  the parser then finds the closing brace and succeeds: \<^verbatim>\<open>write { 1 100000000 }\<close>
  writes the one byte \<^verbatim>\<open>01\<close> to the device and reports nothing.
\<close>

theorem oversized_token_skipped:
  "read_bytes (istringstream ''{ 1 100000000 }'') wcout0 =
     (\<lparr>rdbuf = [], failbit = False, in_hex = True\<rparr>, [1], wcout0) \<and>
   command_line (fake_device \<lparr>Status = FullTransfer, BytesTransferred = 1\<rparr> []) [] wcout0
       ''write { 1 100000000 }'' =
     Continue [WriteCall [1]] wcout0"
  by (simp add: stream_defs command_defs)

text \<open>
  Claim C9, as stated, fails.  The parser itself writes to \<^verbatim>\<open>std::wcout\<close>: for
  \<^verbatim>\<open>{ 100 }\<close> it writes the out-of-range line and leaves the console in hexadecimal
  mode.
\<close>

theorem parser_writes_diagnostic_counterexample:
  "read_bytes (istringstream ''{ 100 }'') wcout0 =
     (\<lparr>rdbuf = '' }'', failbit = True, in_hex = True\<rparr>, [],
      \<lparr>written = ''Out of range [0, 0xff]: 100\<newline>'', out_hex = True\<rparr>)"
  by (simp add: stream_defs)

text \<open>
  Claim C9, amended.  A parse that succeeds leaves the console as it was.  A parse
  that fails has written one diagnostic line to the console itself, one of four,
  before it signals the failure to its caller through the state of the stream; the
  out-of-range line shows the value in hexadecimal and leaves the console in
  hexadecimal mode.
\<close>

theorem parser_writes_only_on_failure:
  "(case read_bytes linestream wcout of
      (is', bytes, wcout') \<Rightarrow>
        (\<not> failbit is' \<longrightarrow> wcout' = wcout) \<and>
        (failbit is' \<longrightarrow>
           wcout' = put wcout ''Syntax error: expecting '{'\<newline>'' \<or>
           wcout' = put wcout ''Zero-length buffers are not allowed\<newline>'' \<or>
           wcout' = put wcout ''Syntax error: expecting '}'\<newline>'' \<or>
           (\<exists>byte :: UINT32. 0xff < byte \<and>
              wcout' = \<lparr>written = written wcout @ ''Out of range [0, 0xff]: '' @
                                   show_hex (unat byte) @ ''\<newline>'',
                        out_hex = True\<rparr>)))"
  by (auto simp: read_bytes_def Let_def put_def set_hex_def put_uint_def
           split: prod.splits option.splits dest: hex_loop_Some)

theorem parser_writes_only_on_failure_witness:
  "read_bytes (istringstream ''{ 0a ff }'') wcout0 =
     (\<lparr>rdbuf = [], failbit = False, in_hex = True\<rparr>, [0x0a, 0xff], wcout0) \<and>
   read_bytes (istringstream ''0a ff }'') wcout0 =
     (\<lparr>rdbuf = ''a ff }'', failbit = True, in_hex = False\<rparr>, [],
      put wcout0 ''Syntax error: expecting '{'\<newline>'')"
proof -
  have 1: "read_bytes (istringstream ''{ 0a ff }'') wcout0 =
     (\<lparr>rdbuf = [], failbit = False, in_hex = True\<rparr>, [0x0a, 0xff], wcout0)"
    by (simp add: stream_defs)
  have 2: "read_bytes (istringstream ''0a ff }'') wcout0 =
     (\<lparr>rdbuf = ''a ff }'', failbit = True, in_hex = False\<rparr>, [],
      put wcout0 ''Syntax error: expecting '{'\<newline>'')"
    by (simp add: stream_defs)
  show ?thesis
    using parser_writes_only_on_failure
            [where linestream = "istringstream ''{ 0a ff }''" and wcout = wcout0]
          parser_writes_only_on_failure
            [where linestream = "istringstream ''0a ff }''" and wcout = wcout0]
    unfolding 1 2 by simp
qed

section \<open>The exit code\<close>

text \<open>
  Claim C7, as stated, fails.  A status outside the three known values makes the
  loop throw a \<^verbatim>\<open>wexception\<close>, and \<^verbatim>\<open>main\<close> returns 1 from the handler of that type,
  the same handler that serves a failed \<^verbatim>\<open>MakeDevice\<close>.
\<close>

theorem unknown_status_exit_code_counterexample:
  "main one_bus (fake_device \<lparr>Status = OtherStatus 3, BytesTransferred = 0\<rparr> [])
        ''I2cTestTool'' [''0x57''] [''read 1''] =
     \<lparr>code = 1, stdout = ''  Type 'help' for a list of commands\<newline>> '',
      stderr = ''Error: Invalid transfer status value\<newline>''\<rparr>"
  by (simp add: main_def MakeDevice_def one_bus_def stream_defs command_defs)

text \<open>
  Claim C7, amended.  A session that reaches the interactive loop ends with exit
  code 1 when it meets an unknown status, that is when it comes to a transfer for
  which the device reports a status outside the three known values, and with exit
  code 0 otherwise.  Exit code 1 comes with the error line for the invalid status.
  With a device that reports only known statuses the exit code is 0, whatever the
  input is and whatever errors it leads to.
\<close>

theorem session_exit_code:
  "arg1 \<noteq> ''-h'' \<and>
   MakeDevice plat (wcstoul plat arg1) (case args2 of [] \<Rightarrow> None | arg2 # _ \<Rightarrow> Some arg2) =
     Inr d \<longrightarrow>
     code (main plat device name (arg1 # args2) input) =
       (if meets_unknown_status device d
             (put wcout0 ''  Type 'help' for a list of commands\<newline>'') input
        then 1 else 0) \<and>
     (code (main plat device name (arg1 # args2) input) = 1 \<longrightarrow>
        stderr (main plat device name (arg1 # args2) input) =
          ''Error: Invalid transfer status value\<newline>'' \<and>
        \<not> only_known_statuses device) \<and>
     (only_known_statuses device \<longrightarrow> code (main plat device name (arg1 # args2) input) = 0)"
proof (intro impI)
  assume a: "arg1 \<noteq> ''-h'' \<and>
   MakeDevice plat (wcstoul plat arg1) (case args2 of [] \<Rightarrow> None | arg2 # _ \<Rightarrow> Some arg2) =
     Inr d"
  let ?w = "put wcout0 ''  Type 'help' for a list of commands\<newline>''"
  have w: "put \<lparr>written = [], out_hex = False\<rparr> ''  Type 'help' for a list of commands\<newline>'' = ?w"
    by (simp add: wcout0_def)
  have m: "main plat device name (arg1 # args2) input =
      (case ShowPrompt device d ?w input of
         Throw (wexception msg) wcout \<Rightarrow>
           \<lparr>code = 1, stdout = written wcout, stderr = ''Error: '' @ msg @ ''\<newline>''\<rparr>
       | Throw (PlatformException msg) wcout \<Rightarrow>
           \<lparr>code = 0, stdout = written wcout, stderr = ''Error: '' @ msg @ ''\<newline>''\<rparr>
       | Continue d' wcout \<Rightarrow> \<lparr>code = 0, stdout = written wcout, stderr = []\<rparr>
       | Return d' wcout \<Rightarrow> \<lparr>code = 0, stdout = written wcout, stderr = []\<rparr>)"
    using a unfolding main_def w [symmetric] by (simp add: Let_def)
  have 1: "code (main plat device name (arg1 # args2) input) =
       (if meets_unknown_status device d ?w input then 1 else 0)"
    unfolding m ShowPrompt_wexception_iff [symmetric]
    by (auto split: outcome.splits exn.splits)
  have 2: "code (main plat device name (arg1 # args2) input) = 1 \<longrightarrow>
        stderr (main plat device name (arg1 # args2) input) =
          ''Error: Invalid transfer status value\<newline>'' \<and>
        \<not> only_known_statuses device"
    unfolding m by (auto split: outcome.splits exn.splits dest: ShowPrompt_Throw)
  have 3: "only_known_statuses device \<longrightarrow> code (main plat device name (arg1 # args2) input) = 0"
    unfolding m by (auto split: outcome.splits exn.splits dest: ShowPrompt_Throw)
  show "code (main plat device name (arg1 # args2) input) =
       (if meets_unknown_status device d ?w input then 1 else 0) \<and>
     (code (main plat device name (arg1 # args2) input) = 1 \<longrightarrow>
        stderr (main plat device name (arg1 # args2) input) =
          ''Error: Invalid transfer status value\<newline>'' \<and>
        \<not> only_known_statuses device) \<and>
     (only_known_statuses device \<longrightarrow> code (main plat device name (arg1 # args2) input) = 0)"
    using 1 2 3 by blast
qed


theorem session_exit_code_witness:
  "''0x57'' \<noteq> ''-h'' \<and>
   MakeDevice one_bus (wcstoul one_bus ''0x57'') None = Inr [] \<and>
   only_known_statuses (fake_device \<lparr>Status = PartialTransfer, BytesTransferred = 1\<rparr> []) \<and>
   code (main one_bus (fake_device \<lparr>Status = PartialTransfer, BytesTransferred = 1\<rparr> [])
           ''I2cTestTool'' [''0x57'']
           [''bogus'', ''write { 100 }'', ''read x'', ''write { 1 2 }'', ''quit'']) = 0 \<and>
   meets_unknown_status (fake_device \<lparr>Status = OtherStatus 7, BytesTransferred = 0\<rparr> []) []
     (put wcout0 ''  Type 'help' for a list of commands\<newline>'') [''help'', ''write { 1 }''] \<and>
   code (main one_bus (fake_device \<lparr>Status = OtherStatus 7, BytesTransferred = 0\<rparr> [])
           ''I2cTestTool'' [''0x57''] [''help'', ''write { 1 }'']) = 1"
proof -
  have 1: "''0x57'' \<noteq> ''-h''" by simp
  have 2: "MakeDevice one_bus (wcstoul one_bus ''0x57'') None = Inr []"
    by (simp add: MakeDevice_def one_bus_def)
  have 3: "only_known_statuses
             (fake_device \<lparr>Status = PartialTransfer, BytesTransferred = 1\<rparr> [])"
    by (simp add: only_known_statuses_fake_device known_status_def)
  have 4: "meets_unknown_status
      (fake_device \<lparr>Status = OtherStatus 7, BytesTransferred = 0\<rparr> []) []
      (put wcout0 ''  Type 'help' for a list of commands\<newline>'') [''help'', ''write { 1 }'']"
    by (simp add: transfer_status_def stream_defs command_defs)
  have 5: "code (main one_bus (fake_device \<lparr>Status = PartialTransfer, BytesTransferred = 1\<rparr> [])
           ''I2cTestTool'' [''0x57'']
           [''bogus'', ''write { 100 }'', ''read x'', ''write { 1 2 }'', ''quit'']) = 0"
    using 1 2 3
      session_exit_code
        [where ?arg1.0 = "''0x57''" and plat = one_bus and ?args2.0 = "[]" and d = "[]"
           and device = "fake_device \<lparr>Status = PartialTransfer, BytesTransferred = 1\<rparr> []"
           and name = "''I2cTestTool''"
           and input = "[''bogus'', ''write { 100 }'', ''read x'', ''write { 1 2 }'', ''quit'']"]
    by simp
  have 6: "code (main one_bus (fake_device \<lparr>Status = OtherStatus 7, BytesTransferred = 0\<rparr> [])
           ''I2cTestTool'' [''0x57''] [''help'', ''write { 1 }'']) = 1"
    using 1 2 4
      session_exit_code
        [where ?arg1.0 = "''0x57''" and plat = one_bus and ?args2.0 = "[]" and d = "[]"
           and device = "fake_device \<lparr>Status = OtherStatus 7, BytesTransferred = 0\<rparr> []"
           and name = "''I2cTestTool''" and input = "[''help'', ''write { 1 }'']"]
    by simp
  show ?thesis using 1 2 3 4 5 6 by blast
qed

section \<open>The commands\<close>

text \<open>
  Claim C8, as stated, fails.  The length is not checked against 0: \<^verbatim>\<open>read 0\<close> calls
  \<^verbatim>\<open>ReadPartial\<close> with an array of no bytes, and \<^verbatim>\<open>writeread { 1 } 0\<close> calls
  \<^verbatim>\<open>WriteReadPartial\<close> with one.
\<close>

theorem read_0_counterexample:
  "command_line (fake_device \<lparr>Status = FullTransfer, BytesTransferred = 0\<rparr> []) [] wcout0
       ''read 0'' =
     Continue [ReadCall []] \<lparr>written = ''\<newline>'', out_hex = False\<rparr> \<and>
   command_line (fake_device \<lparr>Status = FullTransfer, BytesTransferred = 1\<rparr> []) [] wcout0
       ''writeread { 1 } 0'' =
     Continue [WriteReadCall [1] []] \<lparr>written = ''\<newline>'', out_hex = False\<rparr>"
  by (simp add: stream_defs command_defs)

text \<open>
  Claim C8, amended.  The length of a read is any unsigned 32-bit number, 0
  included.  For every \<open>n\<close> below \<open>2 ^ 32\<close> the command \<^verbatim>\<open>read n\<close>, with \<open>n\<close> in
  decimal, calls \<^verbatim>\<open>ReadPartial\<close> with an array of exactly \<open>n\<close> zero bytes, and what
  the call returns decides the outcome: its exception is thrown on, its next state
  of the device is the state the loop continues with, and an unknown status is
  thrown as the invalid status.  The same holds for \<^verbatim>\<open>writeread\<close> with every
  non-empty buffer written as \<open>tokens\<close> and a length of one digit: it calls
  \<^verbatim>\<open>WriteReadPartial\<close> with that buffer and an array of exactly \<open>n\<close> zero bytes.
\<close>

theorem read_length_not_checked:
  "(n < 2 ^ 32 \<longrightarrow>
      (case ReadPartial device d (replicate n 0) of
         Inl msg \<Rightarrow>
           command_line device d wcout (''read '' @ show_dec n) =
             Throw (PlatformException msg) wcout
       | Inr ((result, stored), d') \<Rightarrow>
           (case command_line device d wcout (''read '' @ show_dec n) of
              Continue d'' wcout' \<Rightarrow> known_status (Status result) \<and> d'' = d'
            | Return d'' wcout' \<Rightarrow> False
            | Throw e wcout' \<Rightarrow>
                \<not> known_status (Status result) \<and>
                e = wexception ''Invalid transfer status value''))) \<and>
   (n < 10 \<and> writeBuf \<noteq> [] \<longrightarrow>
      (case WriteReadPartial device d writeBuf (replicate n 0) of
         Inl msg \<Rightarrow>
           command_line device d wcout
               (''writeread {'' @ tokens writeBuf @ '' } '' @ show_dec n) =
             Throw (PlatformException msg) wcout
       | Inr ((result, stored), d') \<Rightarrow>
           (case command_line device d wcout
                   (''writeread {'' @ tokens writeBuf @ '' } '' @ show_dec n) of
              Continue d'' wcout' \<Rightarrow> known_status (Status result) \<and> d'' = d'
            | Return d'' wcout' \<Rightarrow> False
            | Throw e wcout' \<Rightarrow>
                \<not> known_status (Status result) \<and>
                e = wexception ''Invalid transfer status value'')))"
proof (intro conjI impI)
  assume n: "n < 2 ^ 32"
  show "case ReadPartial device d (replicate n 0) of
         Inl msg \<Rightarrow>
           command_line device d wcout (''read '' @ show_dec n) =
             Throw (PlatformException msg) wcout
       | Inr ((result, stored), d') \<Rightarrow>
           (case command_line device d wcout (''read '' @ show_dec n) of
              Continue d'' wcout' \<Rightarrow> known_status (Status result) \<and> d'' = d'
            | Return d'' wcout' \<Rightarrow> False
            | Throw e wcout' \<Rightarrow>
                \<not> known_status (Status result) \<and>
                e = wexception ''Invalid transfer status value'')"
    unfolding command_line_read_dec [OF n] read_transfer_def new_Array_of_nat [OF n]
    by (auto simp: known_status_def Let_def
             split: sum.splits prod.splits I2cTransferStatus.splits)
next
  assume a: "n < 10 \<and> writeBuf \<noteq> []"
  then have n: "n < 2 ^ 32" by simp
  from a have c: "command_line device d wcout
      (''writeread {'' @ tokens writeBuf @ '' } '' @ show_dec n) =
      writeread_transfer device d wcout writeBuf (of_nat n)"
    using command_line_writeread_digit [of n writeBuf device d wcout] by blast
  show "case WriteReadPartial device d writeBuf (replicate n 0) of
         Inl msg \<Rightarrow>
           command_line device d wcout
               (''writeread {'' @ tokens writeBuf @ '' } '' @ show_dec n) =
             Throw (PlatformException msg) wcout
       | Inr ((result, stored), d') \<Rightarrow>
           (case command_line device d wcout
                   (''writeread {'' @ tokens writeBuf @ '' } '' @ show_dec n) of
              Continue d'' wcout' \<Rightarrow> known_status (Status result) \<and> d'' = d'
            | Return d'' wcout' \<Rightarrow> False
            | Throw e wcout' \<Rightarrow>
                \<not> known_status (Status result) \<and>
                e = wexception ''Invalid transfer status value'')"
    unfolding c writeread_transfer_def new_Array_of_nat [OF n]
    by (auto simp: known_status_def Let_def
             split: sum.splits prod.splits I2cTransferStatus.splits)
qed

theorem read_length_not_checked_witness:
  "(0 :: nat) < 2 ^ 32 \<and> (0 :: nat) < 10 \<and> [1, 0xab :: BYTE] \<noteq> [] \<and>
   ReadPartial (fake_device \<lparr>Status = FullTransfer, BytesTransferred = 0\<rparr> []) []
       (replicate 0 0) =
     Inr ((\<lparr>Status = FullTransfer, BytesTransferred = 0\<rparr>, []), [ReadCall []]) \<and>
   (case command_line (fake_device \<lparr>Status = FullTransfer, BytesTransferred = 0\<rparr> []) []
           wcout0 ''read 0'' of
      Continue d'' wcout' \<Rightarrow> d'' = [ReadCall []]
    | _ \<Rightarrow> False) \<and>
   (case command_line (fake_device \<lparr>Status = FullTransfer, BytesTransferred = 0\<rparr> []) []
           wcout0 ''writeread { 1 ab } 0'' of
      Continue d'' wcout' \<Rightarrow> d'' = [WriteReadCall [1, 0xab] []]
    | _ \<Rightarrow> False)"
proof -
  let ?dev = "fake_device \<lparr>Status = FullTransfer, BytesTransferred = 0\<rparr> []"
  have l: "''read '' @ show_dec 0 = ''read 0''"
          "''writeread {'' @ tokens [1, 0xab] @ '' } '' @ show_dec 0 = ''writeread { 1 ab } 0''"
    by (simp_all add: show_dec.simps [of 0] tokens_def show_hex.simps hex_digit_def)
  have r: "ReadPartial ?dev [] (replicate 0 0) =
      Inr ((\<lparr>Status = FullTransfer, BytesTransferred = 0\<rparr>, []), [ReadCall []])"
    by (simp add: fake_device_def)
  have wr: "WriteReadPartial ?dev [] [1, 0xab] (replicate 0 0) =
      Inr ((\<lparr>Status = FullTransfer, BytesTransferred = 0\<rparr>, []),
           [WriteReadCall [1, 0xab] []])"
    by (simp add: fake_device_def)
  show ?thesis
    using read_length_not_checked
            [where n = 0 and device = ?dev and d = "[]" and wcout = wcout0
               and writeBuf = "[1, 0xab]"]
    unfolding l r wr
    by (auto simp: known_status_def split: outcome.splits)
qed

text \<open>
  Claim C10.  When a line is a complete command, text that follows it after a white
  space character changes nothing: the program does with the longer line exactly
  what it does with the line itself.
\<close>

theorem trailing_text_ignored:
  "complete_command line \<and> isspace c \<longrightarrow>
     command_line device d wcout (line @ c # extra) = command_line device d wcout line"
proof
  assume a: "complete_command line \<and> isspace c"
  then have c: "isspace c" by simp
  obtain command ls where w: "extract_word (istringstream line) = (command, ls)"
    by (cases "extract_word (istringstream line)")
  from a w have cmd: "command \<noteq> []"
    by (auto simp: complete_command_def split: if_splits)
  let ?ls' = "ls\<lparr>rdbuf := rdbuf ls @ c # extra\<rparr>"
  have "istringstream (line @ c # extra) =
        (istringstream line)\<lparr>rdbuf := rdbuf (istringstream line) @ c # extra\<rparr>"
    by (simp add: istringstream_def)
  with extract_word_append_space [OF c, of "istringstream line" extra] w cmd
  have w': "extract_word (istringstream (line @ c # extra)) = (command, ?ls')"
    by simp
  have wr: "\<not> failbit (fst (read_bytes ls wcout0)) \<Longrightarrow>
      \<exists>ls1 writeBuf. read_bytes ls wcout = (ls1, writeBuf, wcout) \<and> \<not> failbit ls1 \<and>
        fst (read_bytes ls wcout0) = ls1 \<and>
        read_bytes ?ls' wcout = (ls1\<lparr>rdbuf := rdbuf ls1 @ c # extra\<rparr>, writeBuf, wcout)"
  proof -
    assume "\<not> failbit (fst (read_bytes ls wcout0))"
    then have g: "\<not> failbit (fst (read_bytes ls wcout))"
      using read_bytes_wcout [of ls wcout wcout0] by simp
    have "read_bytes ls wcout =
            (fst (read_bytes ls wcout), fst (snd (read_bytes ls wcout)), wcout)"
      using read_bytes_good_wcout [OF g] by (cases "read_bytes ls wcout") auto
    with g read_bytes_append_space [OF c g, of extra] read_bytes_wcout [of ls wcout wcout0]
    show ?thesis by auto
  qed
  have rd: "fst (extract_uint is) \<noteq> None \<Longrightarrow>
      \<exists>n is'. extract_uint is = (Some n, is') \<and>
        extract_uint (is\<lparr>rdbuf := rdbuf is @ c # extra\<rparr>) =
          (Some n, is'\<lparr>rdbuf := rdbuf is' @ c # extra\<rparr>)" for "is"
  proof -
    assume "fst (extract_uint is) \<noteq> None"
    then obtain n is' where e: "extract_uint is = (Some n, is')"
      by (cases "extract_uint is") auto
    then have "\<not> failbit is" using extract_uint_Some_good by blast
    from extract_uint_append_space [OF c this e, of extra] e show ?thesis by simp
  qed
  consider "command = ''q'' \<or> command = ''quit'' \<or> command = ''h'' \<or> command = ''help'' \<or>
            command = ''info''"
    | "command = ''write''" | "command = ''read''" | "command = ''writeread''"
    using a w by (auto simp: complete_command_def split: if_splits)
  then show "command_line device d wcout (line @ c # extra) = command_line device d wcout line"
  proof cases
    case 1
    then show ?thesis unfolding command_line_def w w' by auto
  next
    case 2
    with a w have "\<not> failbit (fst (read_bytes ls wcout0))"
      by (simp add: complete_command_def)
    from wr [OF this] 2 show ?thesis
      unfolding command_line_def w w' by auto
  next
    case 3
    with a w have "fst (extract_uint ls) \<noteq> None"
      by (simp add: complete_command_def)
    from rd [OF this] 3 show ?thesis
      unfolding command_line_def w w' by auto
  next
    case 4
    with a w have g: "\<not> failbit (fst (read_bytes ls wcout0))"
      and n: "fst (extract_uint (fst (read_bytes ls wcout0))) \<noteq> None"
      by (simp_all add: complete_command_def)
    from wr [OF g] obtain ls1 writeBuf where
      r: "read_bytes ls wcout = (ls1, writeBuf, wcout)" "\<not> failbit ls1"
         "fst (read_bytes ls wcout0) = ls1"
         "read_bytes ?ls' wcout = (ls1\<lparr>rdbuf := rdbuf ls1 @ c # extra\<rparr>, writeBuf, wcout)"
      by blast
    from rd [of ls1] n r(3) obtain k is' where
      e: "extract_uint ls1 = (Some k, is')"
         "extract_uint (ls1\<lparr>rdbuf := rdbuf ls1 @ c # extra\<rparr>) =
            (Some k, is'\<lparr>rdbuf := rdbuf is' @ c # extra\<rparr>)"
      by auto
    from 4 r e show ?thesis
      unfolding command_line_def w w' by simp
  qed
qed

theorem trailing_text_ignored_witness:
  "complete_command ''read 4'' \<and> isspace (CHR '' '') \<and>
   command_line (fake_device \<lparr>Status = FullTransfer, BytesTransferred = 4\<rparr> [1, 2, 3, 4]) []
       wcout0 ''read 4 extra'' =
     command_line (fake_device \<lparr>Status = FullTransfer, BytesTransferred = 4\<rparr> [1, 2, 3, 4]) []
       wcout0 ''read 4'' \<and>
   complete_command ''quit'' \<and>
   command_line (fake_device \<lparr>Status = FullTransfer, BytesTransferred = 4\<rparr> [1, 2, 3, 4]) []
       wcout0 ''quit now'' = Return [] wcout0"
proof -
  have 1: "complete_command ''read 4''" "complete_command ''quit''" "isspace (CHR '' '')"
    by (simp_all add: complete_command_def stream_defs)
  show ?thesis
    using 1
      trailing_text_ignored [of "''read 4''" "CHR '' ''" _ _ _ "''extra''"]
      trailing_text_ignored [of "''quit''" "CHR '' ''" _ _ _ "''now''"]
    by (simp add: command_line_def extract_word_def istringstream_def isspace_def)
qed


section \<open>Number bases are never set back\<close>

text \<open>
  \<^verbatim>\<open>std::hex\<close> stays in force on the stream it was sent to.  On the console, the
  count of a partial transfer is therefore written in hexadecimal once any byte has
  been written; on the stream of the line, the length of \<^verbatim>\<open>writeread\<close> is read in
  hexadecimal, because the parser of the byte buffer has read from that stream
  before.  The theorems about the claims above speak of the decimal cases only.
\<close>

lemma count_in_hex_after_bytes:
  "ShowPrompt (fake_device \<lparr>Status = PartialTransfer, BytesTransferred = 16\<rparr> [0xab]) []
       wcout0 [''read 1'', ''read 1''] =
     Return [ReadCall [0], ReadCall [0]]
       \<lparr>written =
          ''> Partial Transfer. Transferred 16 bytes\<newline> ab\<newline>'' @
          ''> Partial Transfer. Transferred 10 bytes\<newline> ab\<newline>> '',
        out_hex = True\<rparr>"
  by (simp add: stream_defs command_defs)

lemma writeread_length_in_hex:
  "command_line (fake_device \<lparr>Status = SlaveAddressNotAcknowledged, BytesTransferred = 0\<rparr> [])
       [] wcout0 ''writeread { 1 } 10'' =
     Continue [WriteReadCall [1] (replicate 16 0)]
       \<lparr>written = ''Slave address was not acknowledged\<newline>'', out_hex = False\<rparr>"
  by (simp add: stream_defs command_defs)

end
